theory Spec2Isabelle
  imports Main "HOL-Library.Word"
begin

unbundle bit_operations_syntax

section \<open>Linked CA client: data model\<close>

text \<open>
  Go strings are byte sequences; the model uses \<open>string\<close> for text and lists of
  8-bit words for DER bytes.
\<close>

type_synonym byte = "8 word"
type_synonym bytes = "byte list"

text \<open>
  A \<open>pem.Block\<close>. \<open>Headers\<close> is a Go map; only its length is ever inspected, so an
  association list stands for it.
\<close>

record pem_block =
  Type :: string
  Headers :: "(string \<times> string) list"
  Bytes :: bytes

text \<open>
  \<open>pem.Decode\<close> belongs to the Go standard library. It returns the next PEM block of
  its input and the remaining bytes, or a nil block when no further block is found; every
  loop of the source calls it until the block is nil. A PEM text is therefore modelled as
  the sequence of blocks those successive calls deliver, and the end of the list is the
  nil block.
\<close>

type_synonym pem_text = "pem_block list"

text \<open>An \<open>x509.Certificate\<close>: the source reads only its \<open>Raw\<close> field.\<close>

record x509_Certificate =
  Raw :: bytes

text \<open>An \<open>x509.CertificateRequest\<close> and an opaque private key.\<close>

record x509_CertificateRequest =
  csr_Raw :: bytes

datatype crypto_PrivateKey = Key bytes

text \<open>
  An \<open>x509.CertPool\<close> is the list of the certificates added so far. \<open>AddCert\<close> of the
  standard library ignores a certificate that the pool already holds.
\<close>

type_synonym CertPool = "x509_Certificate list"

definition AddCert :: "x509_Certificate \<Rightarrow> CertPool \<Rightarrow> CertPool" where
  "AddCert c pool = (if c \<in> set pool then pool else pool @ [c])"

datatype error =
    ErrParsingToken
  | ErrInvalidAud
  | ErrInvalidSha
  | ErrInvalidSans
  | ErrGenerateSigner
  | ErrCreateCertificateRequest
  | ErrConnecting string
  | ErrGettingRootCertificate
  | ErrParsingCertificate
  | ErrFingerprintMismatch
  | ErrCertificateNotFound
  | ErrLoggingIn string
  | ErrNotCertificateBundle
  | ErrParsingLoginResponse
  | ErrEmptyChain
  | ErrParsingPemCertificate
  | ErrNewRenewer
  | ErrParsingClaims string string

section \<open>getAuthority\<close>

text \<open>
  \<open>uuidPattern\<close> is anchored at both ends, so \<open>MatchString\<close> accepts exactly the
  strings made of the five hexadecimal groups separated by hyphens. The matcher follows
  the pattern group by group: each step consumes its part and hands on the rest.
\<close>

definition isHexClass :: "char \<Rightarrow> bool" where
  "isHexClass c = (c \<in> set ''abcdefABCDEF0123456789'')"

fun hexGroup :: "nat \<Rightarrow> string \<Rightarrow> string option" where
  "hexGroup 0 s = Some s"
| "hexGroup (Suc n) [] = None"
| "hexGroup (Suc n) (c # s) = (if isHexClass c then hexGroup n s else None)"

fun hyphen :: "string \<Rightarrow> string option" where
  "hyphen [] = None"
| "hyphen (c # s) = (if c = CHR ''-'' then Some s else None)"

definition uuidPattern_MatchString :: "string \<Rightarrow> bool" where
  "uuidPattern_MatchString s =
     (Option.bind (Option.bind (Option.bind (Option.bind (Option.bind (Option.bind
        (Option.bind (Option.bind (hexGroup 8 s) hyphen) (hexGroup 4)) hyphen)
        (hexGroup 4)) hyphen) (hexGroup 4)) hyphen) (hexGroup 12) = Some [])"

definition HasPrefix :: "string \<Rightarrow> string \<Rightarrow> bool" where
  "HasPrefix s p = (length p \<le> length s \<and> take (length p) s = p)"

fun getAuthority :: "string list \<Rightarrow> error + string" where
  "getAuthority [] = Inl ErrInvalidSans"
| "getAuthority (s # sans) =
     (if HasPrefix s ''urn:smallstep:authority:'' then
        (if uuidPattern_MatchString (drop 24 s) then Inr (drop 24 s)
         else getAuthority sans)
      else getAuthority sans)"

text \<open>
  The shape the specification gives for an authority identifier: five groups of 8, 4, 4, 4
  and 12 hexadecimal digits of either case, separated by hyphens; and a well-formed SAN,
  the fixed URN prefix followed by such an identifier.
\<close>

definition canonical_uuid :: "string \<Rightarrow> bool" where
  "canonical_uuid u =
     (\<exists>a b c d e. u = a @ ''-'' @ b @ ''-'' @ c @ ''-'' @ d @ ''-'' @ e \<and>
        length a = 8 \<and> length b = 4 \<and> length c = 4 \<and> length d = 4 \<and> length e = 12 \<and>
        (\<forall>x \<in> set (a @ b @ c @ d @ e). isHexClass x))"

definition wellformed_san :: "string \<Rightarrow> bool" where
  "wellformed_san s =
     (\<exists>u. s = ''urn:smallstep:authority:'' @ u \<and> canonical_uuid u)"

section \<open>Library functions and the outside world\<close>

text \<open>
  \<open>hex.EncodeToString\<close>: two lower-case digits for every byte, high nibble first.
\<close>

definition hextable :: string where
  "hextable = ''0123456789abcdef''"

fun EncodeToString :: "bytes \<Rightarrow> string" where
  "EncodeToString [] = []"
| "EncodeToString (v # src) =
     hextable ! unat (drop_bit 4 v) # hextable ! unat (v AND 0x0f) # EncodeToString src"

text \<open>
  \<open>strings.EqualFold\<close>, its byte-wise branch: two bytes agree when they are equal or
  when the smaller is an upper-case ASCII letter and the larger its lower-case form; the
  lengths must agree. The library leaves this branch for Unicode folding once a byte of
  128 or more is met. The source always passes a hexadecimal encoding as second argument,
  whose characters are digits and \<open>a\<close> to \<open>f\<close>: none of them folds to a character
  outside ASCII, so there the Unicode branch can only answer false, as this model does.
\<close>

fun EqualFold :: "string \<Rightarrow> string \<Rightarrow> bool" where
  "EqualFold [] [] = True"
| "EqualFold (sr # s) (tr # t) =
     (if tr = sr then EqualFold s t
      else
        let lo = min (of_char sr) (of_char tr) :: nat;
            hi = max (of_char sr) (of_char tr) :: nat
        in if of_char CHR ''A'' \<le> lo \<and> lo \<le> of_char CHR ''Z'' \<and>
              hi = lo + of_char CHR ''a'' - of_char CHR ''A''
           then EqualFold s t else False)"
| "EqualFold [] (tr # t) = False"
| "EqualFold (sr # s) [] = False"

text \<open>Lower case for ASCII letters, to say what \<open>EqualFold\<close> compares.\<close>

definition toLowerASCII :: "char \<Rightarrow> char" where
  "toLowerASCII c =
     (if of_char CHR ''A'' \<le> (of_char c :: nat) \<and> (of_char c :: nat) \<le> of_char CHR ''Z''
      then char_of ((of_char c :: nat) + 32) else c)"

text \<open>The token's claims (\<open>linkedCAClaims\<close>), as far as the source reads them.\<close>

record linkedCAClaims =
  Audience :: "string list"
  Subject :: string
  SANs :: "string list"
  SHA :: string

datatype JSONWebSignature = JSONWebSignature string

record URL =
  Host :: string

text \<open>The messages of the login exchange.\<close>

record LoginRequest =
  AuthorityId :: string
  Token :: string
  PemCertificateRequest :: pem_text

record LoginResponse =
  PemCertificate :: pem_text
  PemCertificateChain :: pem_text

text \<open>
  A \<open>tls.Certificate\<close> and a \<open>tls.Config\<close>. \<open>RootCAs\<close> is a pointer to the pool in
  the source; the model carries the content of that pool and every function that receives
  the pointer returns the content it leaves behind.
\<close>

record tls_Certificate =
  Certificate :: "bytes list"
  PrivateKey :: crypto_PrivateKey
  Leaf :: "x509_Certificate option"

datatype certificate_hook = NoHook | Renewer_GetClientCertificate

record tls_Config =
  RootCAs :: CertPool
  GetClientCertificate :: certificate_hook

text \<open>
  Every call that leaves the process or starts a component is recorded, in order, as an
  event.
\<close>

datatype event =
    EvDialInsecure string
  | EvGetRootCertificate string string
  | EvDialRootCAs string CertPool
  | EvLogin string LoginRequest
  | EvNewRenewer tls_Certificate
  | EvDial string

text \<open>
  What the source takes from other packages and from the network, as parameters: the
  token decoder, the URL parser, key and request generation, the X.509 parser, SHA-256,
  and for each remote call the answer the world gives to it (\<open>None\<close> or \<open>False\<close> is the
  error return).
\<close>

record env =
  ParseSigned :: "string \<Rightarrow> JSONWebSignature option"
  UnsafeClaimsWithoutVerification :: "JSONWebSignature \<Rightarrow> linkedCAClaims option"
  url_Parse :: "string \<Rightarrow> URL option"
  GenerateDefaultSigner :: "crypto_PrivateKey option"
  CreateCertificateRequest ::
    "string \<Rightarrow> string list \<Rightarrow> crypto_PrivateKey \<Rightarrow> x509_CertificateRequest option"
  ParseCertificate :: "bytes \<Rightarrow> x509_Certificate option"
  Sum256 :: "bytes \<Rightarrow> bytes"
  DialInsecure :: "string \<Rightarrow> bool"
  GetRootCertificate_rpc :: "string \<Rightarrow> string \<Rightarrow> pem_text option"
  DialRootCAs :: "string \<Rightarrow> CertPool \<Rightarrow> bool"
  Login_rpc :: "string \<Rightarrow> LoginRequest \<Rightarrow> LoginResponse option"
  NewRenewer_ok :: "tls_Certificate \<Rightarrow> tls_Config \<Rightarrow> bool"
  Dial :: "string \<Rightarrow> tls_Config \<Rightarrow> bool"

section \<open>getRootCertificate\<close>

text \<open>The loop over the PEM blocks of the response.\<close>

fun getRootCertificate_blocks :: "env \<Rightarrow> string \<Rightarrow> pem_text \<Rightarrow> error + x509_Certificate" where
  "getRootCertificate_blocks env fingerprint [] = Inl ErrCertificateNotFound"
| "getRootCertificate_blocks env fingerprint (block # b) =
     (if Type block \<noteq> ''CERTIFICATE'' \<or> length (Headers block) \<noteq> 0
      then getRootCertificate_blocks env fingerprint b
      else
        (case ParseCertificate env (Bytes block) of
           None \<Rightarrow> Inl ErrParsingCertificate
         | Some cert \<Rightarrow>
             (if \<not> EqualFold fingerprint (EncodeToString (Sum256 env (Raw cert)))
              then Inl ErrFingerprintMismatch
              else Inr cert)))"

definition getRootCertificate ::
  "env \<Rightarrow> string \<Rightarrow> string \<Rightarrow> (error + x509_Certificate) \<times> event list" where
  "getRootCertificate env endpoint fingerprint =
     (if \<not> DialInsecure env endpoint
      then (Inl (ErrConnecting endpoint), [EvDialInsecure endpoint])
      else
        (case GetRootCertificate_rpc env endpoint fingerprint of
           None \<Rightarrow> (Inl ErrGettingRootCertificate,
                     [EvDialInsecure endpoint, EvGetRootCertificate endpoint fingerprint])
         | Some resp \<Rightarrow> (getRootCertificate_blocks env fingerprint resp,
                         [EvDialInsecure endpoint, EvGetRootCertificate endpoint fingerprint])))"

text \<open>A block the trust-anchor scan accepts: a certificate block without headers.\<close>

definition acceptable :: "pem_block \<Rightarrow> bool" where
  "acceptable block = (Type block = ''CERTIFICATE'' \<and> Headers block = [])"

section \<open>login\<close>

text \<open>
  The first loop of \<open>login\<close>: every block of the certificate-chain field must be a
  CERTIFICATE and must parse; the certificates are collected in order.
\<close>

fun login_bundle ::
  "env \<Rightarrow> pem_text \<Rightarrow> x509_Certificate list \<Rightarrow> error + x509_Certificate list" where
  "login_bundle env [] bundle = Inr bundle"
| "login_bundle env (block # rest) bundle =
     (if Type block \<noteq> ''CERTIFICATE'' then Inl ErrNotCertificateBundle
      else
        (case ParseCertificate env (Bytes block) of
           None \<Rightarrow> Inl ErrParsingLoginResponse
         | Some crt \<Rightarrow> login_bundle env rest (bundle @ [crt])))"

text \<open>
  The second loop: every CERTIFICATE block of the leaf field is parsed, its bytes are
  appended to the certificate list and it becomes the leaf; other blocks are passed over.
\<close>

fun login_leaf :: "env \<Rightarrow> pem_text \<Rightarrow> tls_Certificate \<Rightarrow> error + tls_Certificate" where
  "login_leaf env [] cert = Inr cert"
| "login_leaf env (block # rest) cert =
     (if Type block = ''CERTIFICATE'' then
        (case ParseCertificate env (Bytes block) of
           None \<Rightarrow> Inl ErrParsingPemCertificate
         | Some leaf \<Rightarrow>
             login_leaf env rest
               (cert\<lparr>Certificate := Certificate cert @ [Bytes block], Leaf := Some leaf\<rparr>))
      else login_leaf env rest cert)"

text \<open>The third loop: \<open>for i := 0; i < last; i++\<close>.\<close>

function login_intermediates ::
  "x509_Certificate list \<Rightarrow> nat \<Rightarrow> nat \<Rightarrow> tls_Certificate \<Rightarrow> tls_Certificate" where
  "login_intermediates bundle i lst cert =
     (if i < lst
      then login_intermediates bundle (Suc i) lst
             (cert\<lparr>Certificate := Certificate cert @ [Raw (bundle ! i)]\<rparr>)
      else cert)"
  by pat_completeness auto
termination
  by (relation "measure (\<lambda>(bundle, i, lst, cert). lst - i)") auto

definition login ::
  "env \<Rightarrow> string \<Rightarrow> string \<Rightarrow> x509_CertificateRequest \<Rightarrow> crypto_PrivateKey \<Rightarrow> string \<Rightarrow>
   CertPool \<Rightarrow> (error + tls_Certificate \<times> tls_Config) \<times> CertPool \<times> event list" where
  "login env authority token csr signer endpoint rootCAs =
     (if \<not> DialRootCAs env endpoint rootCAs
      then (Inl (ErrConnecting endpoint), rootCAs, [EvDialRootCAs endpoint rootCAs])
      else
        let req = \<lparr>AuthorityId = authority, Token = token,
                   PemCertificateRequest =
                     [\<lparr>Type = ''CERTIFICATE REQUEST'', Headers = [], Bytes = csr_Raw csr\<rparr>]\<rparr>;
            evs = [EvDialRootCAs endpoint rootCAs, EvLogin endpoint req]
        in
          (case Login_rpc env endpoint req of
             None \<Rightarrow> (Inl (ErrLoggingIn endpoint), rootCAs, evs)
           | Some resp \<Rightarrow>
               (case login_bundle env (PemCertificateChain resp) [] of
                  Inl e \<Rightarrow> (Inl e, rootCAs, evs)
                | Inr bundle \<Rightarrow>
                    if length bundle = 0 then (Inl ErrEmptyChain, rootCAs, evs)
                    else
                      (case login_leaf env (PemCertificate resp)
                              \<lparr>Certificate = [], PrivateKey = signer, Leaf = None\<rparr> of
                         Inl e \<Rightarrow> (Inl e, rootCAs, evs)
                       | Inr cert0 \<Rightarrow>
                           let lst = length bundle - 1;
                               cert = login_intermediates bundle 0 lst cert0;
                               rootCAs' = AddCert (bundle ! lst) rootCAs
                           in (Inr (cert, \<lparr>RootCAs = rootCAs', GetClientCertificate = NoHook\<rparr>),
                               rootCAs', evs)))))"

section \<open>newLinkedCAClient\<close>

text \<open>
  The renewer of \<open>tlsutil\<close> keeps the certificate it was given and the function it calls
  to renew it. That function is the closure of the source, which calls \<open>login\<close> on the
  variables it captured; it runs later, in the world of that moment and on the content the
  shared pool has by then, which are its two arguments here.
\<close>

record Renewer =
  renewCertificate ::
    "env \<Rightarrow> CertPool \<Rightarrow> (error + tls_Certificate \<times> tls_Config) \<times> CertPool \<times> event list"
  renewer_cert :: tls_Certificate

record linkedCaClient =
  renewer :: Renewer
  client :: string
  authorityID :: string

text \<open>
  The result is the error, or the client together with the content of the pool that its
  renewer and its TLS configuration share; and the events in the order they happened.
\<close>

definition newLinkedCAClient ::
  "env \<Rightarrow> string \<Rightarrow> (error + linkedCaClient \<times> CertPool) \<times> event list" where
  "newLinkedCAClient env token =
     (case ParseSigned env token of
        None \<Rightarrow> (Inl ErrParsingToken, [])
      | Some tok \<Rightarrow>
     (case UnsafeClaimsWithoutVerification env tok of
        None \<Rightarrow> (Inl ErrParsingToken, [])
      | Some claims \<Rightarrow>
     if length (Audience claims) \<noteq> 1 then (Inl ErrInvalidAud, [])
     else if SHA claims = [] then (Inl ErrInvalidSha, [])
     else
     (case url_Parse env (Audience claims ! 0) of
        None \<Rightarrow> (Inl ErrInvalidAud, [])
      | Some u \<Rightarrow>
     (case getAuthority (SANs claims) of
        Inl e \<Rightarrow> (Inl e, [])
      | Inr authority \<Rightarrow>
     (case GenerateDefaultSigner env of
        None \<Rightarrow> (Inl ErrGenerateSigner, [])
      | Some signer \<Rightarrow>
     (case CreateCertificateRequest env (Subject claims) (SANs claims) signer of
        None \<Rightarrow> (Inl ErrCreateCertificateRequest, [])
      | Some csr \<Rightarrow>
     (case getRootCertificate env (Host u) (SHA claims) of
        (Inl e, evs1) \<Rightarrow> (Inl e, evs1)
      | (Inr root, evs1) \<Rightarrow>
     (case login env authority token csr signer (Host u) (AddCert root []) of
        (Inl e, pool, evs2) \<Rightarrow> (Inl e, evs1 @ evs2)
      | (Inr (cert, tlsConfig), pool, evs2) \<Rightarrow>
          if \<not> NewRenewer_ok env cert tlsConfig
          then (Inl ErrNewRenewer, evs1 @ evs2 @ [EvNewRenewer cert])
          else
            let r = \<lparr>renewCertificate =
                       (\<lambda>world rootCAs. login world authority token csr signer (Host u) rootCAs),
                     renewer_cert = cert\<rparr>;
                tlsConfig' = tlsConfig\<lparr>GetClientCertificate := Renewer_GetClientCertificate\<rparr>
            in if \<not> Dial env (Host u) tlsConfig'
               then (Inl (ErrConnecting (Host u)),
                     evs1 @ evs2 @ [EvNewRenewer cert, EvDial (Host u)])
               else (Inr (\<lparr>renewer = r, client = Host u, authorityID = authority\<rparr>, pool),
                     evs1 @ evs2 @ [EvNewRenewer cert, EvDial (Host u)])))))))))"

text \<open>
  The events that create the renewer or the client's channel.
\<close>

fun started :: "event \<Rightarrow> bool" where
  "started (EvNewRenewer c) = True"
| "started (EvDial h) = True"
| "started (EvDialInsecure h) = False"
| "started (EvGetRootCertificate h f) = False"
| "started (EvDialRootCAs h p) = False"
| "started (EvLogin h r) = False"

text \<open>
  The renewer calls its function once for every renewal attempt; each attempt meets its
  own world and finds the shared pool as the first login and the attempts before it left
  it. The result is, for every attempt in order, what the function returned and the events
  of the attempt, and the pool after the last attempt.
\<close>

fun renewals ::
  "Renewer \<Rightarrow> env list \<Rightarrow> CertPool \<Rightarrow>
   ((error + tls_Certificate \<times> tls_Config) \<times> event list) list \<times> CertPool" where
  "renewals r [] pool = ([], pool)"
| "renewals r (world # worlds) pool =
     (case renewCertificate r world pool of
        (res, pool', evs) \<Rightarrow>
          (case renewals r worlds pool' of (outs, pool'') \<Rightarrow> ((res, evs) # outs, pool'')))"

text \<open>The pool that attempt \<open>k\<close> finds: the pool after the \<open>k\<close> attempts before it.\<close>

definition pool_before :: "Renewer \<Rightarrow> env list \<Rightarrow> CertPool \<Rightarrow> nat \<Rightarrow> CertPool" where
  "pool_before r worlds pool k = snd (renewals r (take k worlds) pool)"

text \<open>The events of a login made with the given arguments.\<close>

fun login_event :: "string \<Rightarrow> string \<Rightarrow> x509_CertificateRequest \<Rightarrow> string \<Rightarrow> event \<Rightarrow> bool" where
  "login_event authority token csr endpoint (EvDialRootCAs h p) = (h = endpoint)"
| "login_event authority token csr endpoint (EvLogin h req) =
     (h = endpoint \<and>
      req = \<lparr>AuthorityId = authority, Token = token,
             PemCertificateRequest =
               [\<lparr>Type = ''CERTIFICATE REQUEST'', Headers = [], Bytes = csr_Raw csr\<rparr>]\<rparr>)"
| "login_event authority token csr endpoint (EvDialInsecure h) = False"
| "login_event authority token csr endpoint (EvGetRootCertificate h f) = False"
| "login_event authority token csr endpoint (EvNewRenewer c) = False"
| "login_event authority token csr endpoint (EvDial h) = False"

section \<open>Claims.ToCertificates\<close>

text \<open>
  Modelled from the spec: the declarations of the management \<open>Claims\<close> type, of its
  \<open>X509Claims\<close>, \<open>SSHClaims\<close> and \<open>Durations\<close> parts, of \<open>provisioner.Claims\<close> and of
  \<open>provisioner.Duration\<close> are not among the sources, and the specification leaves the
  claims data model out of its scope. The records below hold the fields that
  \<open>ToCertificates\<close> reads and writes, under the names it uses; the nested values are
  taken to be present. A pointer field of \<open>provisioner.Claims\<close> is an option, \<open>None\<close>
  for nil.
\<close>

record Durations =
  dur_Min :: string
  dur_Max :: string
  dur_Default :: string

record X509Claims =
  x509_Durations :: Durations

record SSHClaims =
  Enabled :: bool
  UserDurations :: Durations
  HostDurations :: Durations

record Claims =
  X509 :: X509Claims
  SSH :: SSHClaims
  DisableRenewal :: bool

datatype Duration = Duration int

record provisioner_Claims =
  MinTLSDur :: "Duration option"
  MaxTLSDur :: "Duration option"
  DefaultTLSDur :: "Duration option"
  p_DisableRenewal :: "bool option"
  MinUserSSHDur :: "Duration option"
  MaxUserSSHDur :: "Duration option"
  DefaultUserSSHDur :: "Duration option"
  MinHostSSHDur :: "Duration option"
  MaxHostSSHDur :: "Duration option"
  DefaultHostSSHDur :: "Duration option"
  EnableSSHCA :: "bool option"

text \<open>The value type of the map \<open>durs\<close>, and the map as its list of entries.\<close>

record dur_entry =
  durStr :: string
  dur :: "Duration option"

definition durs_of :: "Claims \<Rightarrow> (string \<times> dur_entry) list" where
  "durs_of c =
     [(''minTLSDur'', \<lparr>durStr = dur_Min (x509_Durations (X509 c)), dur = None\<rparr>),
      (''maxTLSDur'', \<lparr>durStr = dur_Max (x509_Durations (X509 c)), dur = None\<rparr>),
      (''defaultTLSDur'', \<lparr>durStr = dur_Default (x509_Durations (X509 c)), dur = None\<rparr>),
      (''minSSHUserDur'', \<lparr>durStr = dur_Min (UserDurations (SSH c)), dur = None\<rparr>),
      (''maxSSHUserDur'', \<lparr>durStr = dur_Max (UserDurations (SSH c)), dur = None\<rparr>),
      (''defaultSSHUserDur'', \<lparr>durStr = dur_Default (UserDurations (SSH c)), dur = None\<rparr>),
      (''minSSHHostDur'', \<lparr>durStr = dur_Min (HostDurations (SSH c)), dur = None\<rparr>),
      (''maxSSHHostDur'', \<lparr>durStr = dur_Max (HostDurations (SSH c)), dur = None\<rparr>),
      (''defaultSSHHostDur'', \<lparr>durStr = dur_Default (HostDurations (SSH c)), dur = None\<rparr>)]"

text \<open>Reading a Go map: a missing key gives the zero value.\<close>

definition lookup_durs :: "(string \<rightharpoonup> dur_entry) \<Rightarrow> string \<Rightarrow> dur_entry" where
  "lookup_durs durs k =
     (case durs k of None \<Rightarrow> \<lparr>durStr = [], dur = None\<rparr> | Some v \<Rightarrow> v)"

text \<open>
  The loop \<open>for k, v := range durs\<close>. The runtime visits the keys in an order of its own
  choice, which is the list given here. The loop variable \<open>v\<close> is a copy of the map's
  value: the parsed duration is stored in the copy, and the map goes through the loop
  as it came.
\<close>

fun range_durs ::
  "(string \<Rightarrow> Duration option) \<Rightarrow> string list \<Rightarrow> (string \<rightharpoonup> dur_entry) \<Rightarrow>
   error + (string \<rightharpoonup> dur_entry)" where
  "range_durs NewDuration [] durs = Inr durs"
| "range_durs NewDuration (k # ks) durs =
     (let v = lookup_durs durs k;
          v' = v\<lparr>dur := NewDuration (durStr v)\<rparr>
      in if dur v' = None then Inl (ErrParsingClaims k (durStr v'))
         else range_durs NewDuration ks durs)"

definition ToCertificates ::
  "(string \<Rightarrow> Duration option) \<Rightarrow> string list \<Rightarrow> Claims \<Rightarrow> error + provisioner_Claims" where
  "ToCertificates NewDuration order c =
     (case range_durs NewDuration order (map_of (durs_of c)) of
        Inl e \<Rightarrow> Inl e
      | Inr durs \<Rightarrow>
          Inr \<lparr>MinTLSDur = dur (lookup_durs durs ''minTLSDur''),
               MaxTLSDur = dur (lookup_durs durs ''maxTLSDur''),
               DefaultTLSDur = dur (lookup_durs durs ''defaultTLSDur''),
               p_DisableRenewal = Some (DisableRenewal c),
               MinUserSSHDur = dur (lookup_durs durs ''minSSHUserDur''),
               MaxUserSSHDur = dur (lookup_durs durs ''maxSSHUserDur''),
               DefaultUserSSHDur = dur (lookup_durs durs ''defaultSSHUserDur''),
               MinHostSSHDur = dur (lookup_durs durs ''minSSHHostDur''),
               MaxHostSSHDur = dur (lookup_durs durs ''maxSSHHostDur''),
               DefaultHostSSHDur = dur (lookup_durs durs ''defaultSSHHostDur''),
               EnableSSHCA = Some (Enabled (SSH c))\<rparr>)"

text \<open>The nine duration strings of a \<open>Claims\<close> value.\<close>

definition duration_strings :: "Claims \<Rightarrow> string list" where
  "duration_strings c =
     [dur_Min (x509_Durations (X509 c)), dur_Max (x509_Durations (X509 c)),
      dur_Default (x509_Durations (X509 c)),
      dur_Min (UserDurations (SSH c)), dur_Max (UserDurations (SSH c)),
      dur_Default (UserDurations (SSH c)),
      dur_Min (HostDurations (SSH c)), dur_Max (HostDurations (SSH c)),
      dur_Default (HostDurations (SSH c))]"

text \<open>
  A sample parser of durations, which knows two texts, and two \<open>Claims\<close> values: the
  durations of the first parse, one of the second does not.
\<close>

definition NewDuration0 :: "string \<Rightarrow> Duration option" where
  "NewDuration0 s =
     (if s = ''5m'' then Some (Duration 300000000000)
      else if s = ''24h'' then Some (Duration 86400000000000)
      else None)"

definition sample_claims :: Claims where
  "sample_claims =
     \<lparr>X509 = \<lparr>x509_Durations = \<lparr>dur_Min = ''5m'', dur_Max = ''24h'', dur_Default = ''24h''\<rparr>\<rparr>,
      SSH = \<lparr>Enabled = True,
             UserDurations = \<lparr>dur_Min = ''5m'', dur_Max = ''24h'', dur_Default = ''24h''\<rparr>,
             HostDurations = \<lparr>dur_Min = ''5m'', dur_Max = ''24h'', dur_Default = ''24h''\<rparr>\<rparr>,
      DisableRenewal = False\<rparr>"

definition sample_order :: "string list" where
  "sample_order =
     [''maxSSHHostDur'', ''minTLSDur'', ''defaultSSHUserDur'', ''maxTLSDur'', ''minSSHHostDur'',
      ''defaultTLSDur'', ''minSSHUserDur'', ''defaultSSHHostDur'', ''maxSSHUserDur'']"

section \<open>A sample world\<close>

text \<open>
  A concrete environment on which the theorems below are exercised. Its X.509 parser
  accepts the byte strings that begin with the DER sequence tag and rejects all others,
  and its digest is the identity, so that fingerprints can be read off the bytes; both are
  stand-ins for the library functions, which the theorems leave arbitrary.
\<close>

definition root_resp0 :: pem_text where
  "root_resp0 =
     [\<lparr>Type = ''PUBLIC KEY'', Headers = [], Bytes = [0x01]\<rparr>,
      \<lparr>Type = ''CERTIFICATE'', Headers = [(''Proc-Type'', ''4,ENCRYPTED'')], Bytes = [0x02]\<rparr>,
      \<lparr>Type = ''CERTIFICATE'', Headers = [], Bytes = [0x30, 0xff]\<rparr>,
      \<lparr>Type = ''CERTIFICATE'', Headers = [], Bytes = [0x03]\<rparr>]"

text \<open>
  The sample URL parser knows three inputs: a URL with a host, a text without scheme,
  which \<open>url.Parse\<close> reads as a path and so with an empty host, and a text it refuses.
\<close>

definition url_Parse0 :: "string \<Rightarrow> URL option" where
  "url_Parse0 s =
     (if s = ''https://ca.example:443'' then Some \<lparr>Host = ''ca.example:443''\<rparr>
      else if s = ''ca.example'' then Some \<lparr>Host = []\<rparr>
      else None)"

definition claims0 :: linkedCAClaims where
  "claims0 =
     \<lparr>Audience = [''https://ca.example:443''], Subject = ''ca-1'',
      SANs = [''urn:smallstep:authority:11111111-1111-1111-1111-111111111111''],
      SHA = ''30ff''\<rparr>"

definition env0 :: env where
  "env0 = \<lparr>
     ParseSigned = (\<lambda>t. if t = [] then None else Some (JSONWebSignature t)),
     UnsafeClaimsWithoutVerification = (\<lambda>j. None),
     url_Parse = url_Parse0,
     GenerateDefaultSigner = Some (Key [0x01]),
     CreateCertificateRequest = (\<lambda>subject sans k. Some \<lparr>csr_Raw = [0x07]\<rparr>),
     ParseCertificate =
       (\<lambda>der. case der of [] \<Rightarrow> None
               | t # ts \<Rightarrow> if t = 0x30 then Some \<lparr>Raw = der\<rparr> else None),
     Sum256 = (\<lambda>der. der),
     DialInsecure = (\<lambda>e. True),
     GetRootCertificate_rpc = (\<lambda>e fp. Some root_resp0),
     DialRootCAs = (\<lambda>e p. True),
     Login_rpc = (\<lambda>e r. None),
     NewRenewer_ok = (\<lambda>c f. True),
     Dial = (\<lambda>e c. True) \<rparr>"

text \<open>
  Login responses: a leaf with an intermediate and a root; the same without a leaf; an
  empty chain; a chain with a block of another type after a good certificate; and a chain
  whose first block claims to be a certificate but does not parse, followed by a block of
  another type.
\<close>

definition login_resp0 :: LoginResponse where
  "login_resp0 =
     \<lparr>PemCertificate = [\<lparr>Type = ''CERTIFICATE'', Headers = [], Bytes = [0x30, 0x01]\<rparr>],
      PemCertificateChain =
        [\<lparr>Type = ''CERTIFICATE'', Headers = [], Bytes = [0x30, 0x02]\<rparr>,
         \<lparr>Type = ''CERTIFICATE'', Headers = [], Bytes = [0x30, 0x03]\<rparr>]\<rparr>"

definition login_resp_noleaf :: LoginResponse where
  "login_resp_noleaf = login_resp0\<lparr>PemCertificate := []\<rparr>"

definition login_resp_empty :: LoginResponse where
  "login_resp_empty = login_resp0\<lparr>PemCertificateChain := []\<rparr>"

definition login_resp_key :: LoginResponse where
  "login_resp_key = login_resp0\<lparr>PemCertificateChain :=
     [\<lparr>Type = ''CERTIFICATE'', Headers = [], Bytes = [0x30, 0x02]\<rparr>,
      \<lparr>Type = ''PUBLIC KEY'', Headers = [], Bytes = [0x30, 0x03]\<rparr>]\<rparr>"

definition login_resp_garbage :: LoginResponse where
  "login_resp_garbage = login_resp0\<lparr>PemCertificateChain :=
     [\<lparr>Type = ''CERTIFICATE'', Headers = [], Bytes = [0x00]\<rparr>,
      \<lparr>Type = ''PUBLIC KEY'', Headers = [], Bytes = [0x30, 0x03]\<rparr>]\<rparr>"

definition login_resp_newroot :: LoginResponse where
  "login_resp_newroot =
     \<lparr>PemCertificate = [\<lparr>Type = ''CERTIFICATE'', Headers = [], Bytes = [0x30, 0x06]\<rparr>],
      PemCertificateChain =
        [\<lparr>Type = ''CERTIFICATE'', Headers = [], Bytes = [0x30, 0x04]\<rparr>,
         \<lparr>Type = ''CERTIFICATE'', Headers = [], Bytes = [0x30, 0x05]\<rparr>]\<rparr>"

definition login_resp_two_leaves :: LoginResponse where
  "login_resp_two_leaves = login_resp0\<lparr>PemCertificate :=
     [\<lparr>Type = ''CERTIFICATE'', Headers = [], Bytes = [0x30, 0x01]\<rparr>,
      \<lparr>Type = ''CERTIFICATE'', Headers = [], Bytes = [0x30, 0x09]\<rparr>]\<rparr>"

definition login_resp_good_garbage_key :: LoginResponse where
  "login_resp_good_garbage_key = login_resp0\<lparr>PemCertificateChain :=
     [\<lparr>Type = ''CERTIFICATE'', Headers = [], Bytes = [0x30, 0x02]\<rparr>,
      \<lparr>Type = ''CERTIFICATE'', Headers = [], Bytes = [0x00]\<rparr>,
      \<lparr>Type = ''PUBLIC KEY'', Headers = [], Bytes = [0x30, 0x03]\<rparr>]\<rparr>"

definition env_login :: "LoginResponse \<Rightarrow> env" where
  "env_login resp = env0\<lparr>Login_rpc := \<lambda>e r. Some resp\<rparr>"

definition env_claims :: "linkedCAClaims \<Rightarrow> env \<Rightarrow> env" where
  "env_claims c env = env\<lparr>UnsafeClaimsWithoutVerification := \<lambda>j. Some c\<rparr>"

text \<open>
  Worlds for the bootstrap: one in which every step succeeds; one whose token pins another
  fingerprint than the digest of the certificate the authority returns; tokens without
  audience, with an audience the URL parser refuses, with an audience without host (and
  an authority that does not answer the root request), and with a refused audience and an
  empty fingerprint.
\<close>

definition env_ok :: env where
  "env_ok = env_claims claims0 (env_login login_resp0)"

definition env_mismatch :: env where
  "env_mismatch = env_claims (claims0\<lparr>SHA := ''30fe''\<rparr>) (env_login login_resp0)"





definition sample_claims_bad :: Claims where
  "sample_claims_bad =
     sample_claims\<lparr>SSH := (SSH sample_claims)\<lparr>HostDurations :=
       \<lparr>dur_Min = ''5m'', dur_Max = ''soon'', dur_Default = ''24h''\<rparr>\<rparr>\<rparr>"

section \<open>getAuthority: the pattern and the specification's shape agree\<close>

lemma hexGroup_append:
  "length a = n \<Longrightarrow> \<forall>x \<in> set a. isHexClass x \<Longrightarrow> hexGroup n (a @ r) = Some r"
  by (induction a arbitrary: n) auto

lemma hexGroup_SomeD:
  "hexGroup n s = Some r \<Longrightarrow> \<exists>a. s = a @ r \<and> length a = n \<and> (\<forall>x \<in> set a. isHexClass x)"
proof (induction n s rule: hexGroup.induct)
  case (1 s)
  then show ?case by simp
next
  case (2 n)
  then show ?case by simp
next
  case (3 n c s)
  from "3.prems" have hc: "isHexClass c" and rest: "hexGroup n s = Some r"
    by (auto split: if_splits)
  from "3.IH" [OF hc rest] obtain a where
    "s = a @ r" "length a = n" "\<forall>x \<in> set a. isHexClass x" by blast
  with hc have "c # s = (c # a) @ r \<and> length (c # a) = Suc n \<and> (\<forall>x \<in> set (c # a). isHexClass x)"
    by simp
  then show ?case by blast
qed

lemma hyphen_Some: "hyphen s = Some r \<longleftrightarrow> s = CHR ''-'' # r"
  by (cases s) auto

lemma MatchString_canonical: "uuidPattern_MatchString u \<Longrightarrow> canonical_uuid u"
proof -
  assume m: "uuidPattern_MatchString u"
  then obtain r1 r2 r3 r4 r5 r6 r7 r8 where steps:
    "hexGroup 8 u = Some r1" "hyphen r1 = Some r2"
    "hexGroup 4 r2 = Some r3" "hyphen r3 = Some r4"
    "hexGroup 4 r4 = Some r5" "hyphen r5 = Some r6"
    "hexGroup 4 r6 = Some r7" "hyphen r7 = Some r8"
    "hexGroup 12 r8 = Some []"
    unfolding uuidPattern_MatchString_def bind_eq_Some_conv by blast
  from hexGroup_SomeD [OF steps(1)] obtain a where
    a: "u = a @ r1" "length a = 8" "\<forall>x \<in> set a. isHexClass x" by blast
  from hexGroup_SomeD [OF steps(3)] obtain b where
    b: "r2 = b @ r3" "length b = 4" "\<forall>x \<in> set b. isHexClass x" by blast
  from hexGroup_SomeD [OF steps(5)] obtain c where
    c: "r4 = c @ r5" "length c = 4" "\<forall>x \<in> set c. isHexClass x" by blast
  from hexGroup_SomeD [OF steps(7)] obtain d where
    d: "r6 = d @ r7" "length d = 4" "\<forall>x \<in> set d. isHexClass x" by blast
  from hexGroup_SomeD [OF steps(9)] obtain e where
    e: "r8 = e @ []" "length e = 12" "\<forall>x \<in> set e. isHexClass x" by blast
  from steps(2,4,6,8) have h: "r1 = CHR ''-'' # r2" "r3 = CHR ''-'' # r4"
    "r5 = CHR ''-'' # r6" "r7 = CHR ''-'' # r8"
    by (simp_all add: hyphen_Some)
  have "u = a @ ''-'' @ b @ ''-'' @ c @ ''-'' @ d @ ''-'' @ e"
    using a(1) b(1) c(1) d(1) e(1) h by simp
  moreover have "\<forall>x \<in> set (a @ b @ c @ d @ e). isHexClass x"
    using a(3) b(3) c(3) d(3) e(3) by auto
  ultimately show ?thesis
    unfolding canonical_uuid_def using a(2) b(2) c(2) d(2) e(2) by blast
qed

lemma canonical_MatchString: "canonical_uuid u \<Longrightarrow> uuidPattern_MatchString u"
proof -
  assume "canonical_uuid u"
  then obtain a b c d e where
    u: "u = a @ ''-'' @ b @ ''-'' @ c @ ''-'' @ d @ ''-'' @ e" and
    len: "length a = 8" "length b = 4" "length c = 4" "length d = 4" "length e = 12" and
    hex: "\<forall>x \<in> set a. isHexClass x" "\<forall>x \<in> set b. isHexClass x"
      "\<forall>x \<in> set c. isHexClass x" "\<forall>x \<in> set d. isHexClass x" "\<forall>x \<in> set e. isHexClass x"
    unfolding canonical_uuid_def by auto
  have last: "hexGroup 12 e = Some []"
    using hexGroup_append [OF len(5) hex(5), of "[]"] by simp
  show ?thesis
    unfolding uuidPattern_MatchString_def u
    by (simp add: hexGroup_append [OF len(1) hex(1)] hexGroup_append [OF len(2) hex(2)]
        hexGroup_append [OF len(3) hex(3)] hexGroup_append [OF len(4) hex(4)] last)
qed

lemma urn_prefix_length: "length ''urn:smallstep:authority:'' = 24"
  by simp

lemma wellformed_san_code [code]:
  "wellformed_san s \<longleftrightarrow>
     HasPrefix s ''urn:smallstep:authority:'' \<and> uuidPattern_MatchString (drop 24 s)"
proof
  assume "wellformed_san s"
  then obtain u where "s = ''urn:smallstep:authority:'' @ u" "canonical_uuid u"
    unfolding wellformed_san_def by blast
  then show "HasPrefix s ''urn:smallstep:authority:'' \<and> uuidPattern_MatchString (drop 24 s)"
    unfolding HasPrefix_def urn_prefix_length by (simp add: canonical_MatchString)
next
  assume h: "HasPrefix s ''urn:smallstep:authority:'' \<and> uuidPattern_MatchString (drop 24 s)"
  then have "take 24 s = ''urn:smallstep:authority:''"
    unfolding HasPrefix_def urn_prefix_length by blast
  then have "s = ''urn:smallstep:authority:'' @ drop 24 s"
    by (metis append_take_drop_id)
  with h show "wellformed_san s"
    unfolding wellformed_san_def using MatchString_canonical by blast
qed

section \<open>getAuthority: the first well-formed SAN wins\<close>

lemma getAuthority_Cons:
  "getAuthority (s # sans) =
     (if wellformed_san s then Inr (drop 24 s) else getAuthority sans)"
  by (simp add: wellformed_san_code)

text \<open>
  C4 (as amended). \<open>getAuthority\<close> succeeds exactly when at least one SAN is the URN
  prefix followed by a canonical 8-4-4-4-12 hexadecimal UUID, and it then returns the UUID
  remainder of the first such SAN, whether or not later SANs are well formed as well; a
  SAN with the prefix and a malformed remainder is passed over. With no well-formed SAN
  the result is the invalid-sans error, never a default value.
\<close>

theorem getAuthority_first_wellformed:
  "getAuthority sans =
     (case filter wellformed_san sans of
        [] \<Rightarrow> Inl ErrInvalidSans
      | s # rest \<Rightarrow> Inr (drop (length ''urn:smallstep:authority:'') s))"
proof (induction sans)
  case Nil
  show ?case by simp
next
  case (Cons s sans)
  show ?case
  proof (cases "wellformed_san s")
    case True
    then show ?thesis by (simp only: getAuthority_Cons urn_prefix_length) simp
  next
    case False
    then show ?thesis using Cons.IH by (simp only: getAuthority_Cons) simp
  qed
qed

lemma getAuthority_example:
  "getAuthority [''dns.example.com'', ''urn:smallstep:authority:zz'',
      ''urn:smallstep:authority:0aB1c2d3-0000-4abc-9DEF-0123456789ab'']
   = Inr ''0aB1c2d3-0000-4abc-9DEF-0123456789ab''"
  by code_simp

theorem getAuthority_first_wellformed_witness:
  "(case filter wellformed_san [''dns.example.com'', ''urn:smallstep:authority:zz'',
      ''urn:smallstep:authority:0aB1c2d3-0000-4abc-9DEF-0123456789ab''] of
      [] \<Rightarrow> Inl ErrInvalidSans
    | s # rest \<Rightarrow> Inr (drop (length ''urn:smallstep:authority:'') s))
   = Inr ''0aB1c2d3-0000-4abc-9DEF-0123456789ab''"
  unfolding getAuthority_first_wellformed [symmetric] by (rule getAuthority_example)

text \<open>
  C4 as stated fails: with two different well-formed SANs the extraction still succeeds,
  returning the first.
\<close>

theorem getAuthority_two_matches_counterexample:
  "getAuthority [''urn:smallstep:authority:11111111-1111-1111-1111-111111111111'',
      ''urn:smallstep:authority:22222222-2222-2222-2222-222222222222'']
     = Inr ''11111111-1111-1111-1111-111111111111'' \<and>
   length (filter wellformed_san
     [''urn:smallstep:authority:11111111-1111-1111-1111-111111111111'',
      ''urn:smallstep:authority:22222222-2222-2222-2222-222222222222'']) = 2"
  by code_simp

section \<open>EqualFold compares up to the case of ASCII letters\<close>

lemma fold_step:
  assumes "tr \<noteq> sr"
  shows "(let lo = min (of_char sr) (of_char tr) :: nat;
              hi = max (of_char sr) (of_char tr) :: nat
          in of_char CHR ''A'' \<le> lo \<and> lo \<le> of_char CHR ''Z'' \<and>
             hi = lo + of_char CHR ''a'' - of_char CHR ''A'') \<longleftrightarrow>
         toLowerASCII sr = toLowerASCII tr"
proof -
  have ne: "(of_char sr :: nat) \<noteq> of_char tr"
    using assms by simp
  have inj: "\<And>a b. toLowerASCII a = toLowerASCII b \<Longrightarrow>
      (of_char (toLowerASCII a) :: nat) = of_char (toLowerASCII b)"
    by simp
  have lo: "\<And>c. (of_char (toLowerASCII c) :: nat) =
      (if 65 \<le> (of_char c :: nat) \<and> (of_char c :: nat) \<le> 90 then of_char c + 32 else of_char c)"
    by (simp add: toLowerASCII_def take_bit_eq_mod)
  have eq: "toLowerASCII sr = toLowerASCII tr \<longleftrightarrow>
      (of_char (toLowerASCII sr) :: nat) = of_char (toLowerASCII tr)"
    by simp
  show ?thesis
    unfolding eq lo Let_def using ne by (auto simp: min_def max_def)
qed

lemma EqualFold_lower: "EqualFold s t \<longleftrightarrow> map toLowerASCII s = map toLowerASCII t"
proof (induction s t rule: EqualFold.induct)
  case 1
  show ?case by simp
next
  case (2 sr s tr t)
  show ?case
  proof (cases "tr = sr")
    case True
    with 2 show ?thesis by simp
  next
    case False
    show ?thesis
    proof (cases "toLowerASCII sr = toLowerASCII tr")
      case True
      with fold_step [OF False] have c: "of_char CHR ''A'' \<le> (min (of_char sr) (of_char tr) :: nat) \<and>
          (min (of_char sr) (of_char tr) :: nat) \<le> of_char CHR ''Z'' \<and>
          (max (of_char sr) (of_char tr) :: nat) =
            min (of_char sr) (of_char tr) + of_char CHR ''a'' - of_char CHR ''A''"
        by (simp add: Let_def)
      have "EqualFold (sr # s) (tr # t) = EqualFold s t"
        using False c by (simp add: Let_def)
      also have "\<dots> = (map toLowerASCII s = map toLowerASCII t)"
        using "2.IH" (2) [OF False refl refl] c by simp
      finally show ?thesis using True by simp
    next
      case ne: False
      with fold_step [OF False] have "\<not> (of_char CHR ''A'' \<le> (min (of_char sr) (of_char tr) :: nat) \<and>
          (min (of_char sr) (of_char tr) :: nat) \<le> of_char CHR ''Z'' \<and>
          (max (of_char sr) (of_char tr) :: nat) =
            min (of_char sr) (of_char tr) + of_char CHR ''a'' - of_char CHR ''A'')"
        by (simp add: Let_def)
      then have "\<not> EqualFold (sr # s) (tr # t)"
        using False by (auto simp: Let_def)
      with ne show ?thesis by simp
    qed
  qed
next
  case (3 tr t)
  show ?case by simp
next
  case (4 sr s)
  show ?case by simp
qed

section \<open>getRootCertificate: block selection and the fingerprint check\<close>

lemma blocks_skip:
  "\<forall>b \<in> set pre. \<not> acceptable b \<Longrightarrow>
   getRootCertificate_blocks env fp (pre @ rest) = getRootCertificate_blocks env fp rest"
  by (induction pre) (auto simp: acceptable_def)

lemma blocks_none:
  "\<forall>b \<in> set resp. \<not> acceptable b \<Longrightarrow>
   getRootCertificate_blocks env fp resp = Inl ErrCertificateNotFound"
  using blocks_skip [of resp env fp "[]"] by simp

lemma blocks_head:
  "acceptable block \<Longrightarrow>
   getRootCertificate_blocks env fp (block # post) =
     (case ParseCertificate env (Bytes block) of
        None \<Rightarrow> Inl ErrParsingCertificate
      | Some cert \<Rightarrow>
          if EqualFold fp (EncodeToString (Sum256 env (Raw cert)))
          then Inr cert else Inl ErrFingerprintMismatch)"
  by (auto simp: acceptable_def split: option.splits)

lemma blocks_Inr:
  "getRootCertificate_blocks env fp resp = Inr cert \<Longrightarrow>
   EqualFold fp (EncodeToString (Sum256 env (Raw cert)))"
  by (induction resp) (auto split: if_splits option.splits)

lemma getRootCertificate_answered:
  "DialInsecure env endpoint \<Longrightarrow> GetRootCertificate_rpc env endpoint fp = Some resp \<Longrightarrow>
   fst (getRootCertificate env endpoint fp) = getRootCertificate_blocks env fp resp"
  by (simp add: getRootCertificate_def)

lemma getRootCertificate_Inr:
  "fst (getRootCertificate env endpoint fp) = Inr cert \<Longrightarrow>
   \<exists>resp. GetRootCertificate_rpc env endpoint fp = Some resp \<and>
     getRootCertificate_blocks env fp resp = Inr cert"
  by (auto simp: getRootCertificate_def split: if_splits option.splits)

text \<open>
  C7. Once the trust-anchor fetch has an answer, \<open>getRootCertificate\<close> goes through its
  PEM blocks in order, passing over every block that is not of type CERTIFICATE or that
  carries headers, and its result is decided by the first block that is a CERTIFICATE
  without headers (parsed, then checked against the fingerprint), whatever follows it.
  When the answer holds no such block the result is the certificate-not-found error.
\<close>

theorem getRootCertificate_first_acceptable:
  assumes "DialInsecure env endpoint"
    and "GetRootCertificate_rpc env endpoint fp = Some resp"
  shows "((\<forall>b \<in> set resp. \<not> acceptable b) \<longrightarrow>
            fst (getRootCertificate env endpoint fp) = Inl ErrCertificateNotFound) \<and>
         (\<forall>pre block post.
            resp = pre @ block # post \<and> (\<forall>b \<in> set pre. \<not> acceptable b) \<and> acceptable block \<longrightarrow>
            fst (getRootCertificate env endpoint fp) =
              (case ParseCertificate env (Bytes block) of
                 None \<Rightarrow> Inl ErrParsingCertificate
               | Some cert \<Rightarrow>
                   if EqualFold fp (EncodeToString (Sum256 env (Raw cert)))
                   then Inr cert else Inl ErrFingerprintMismatch))"
proof (intro conjI allI impI)
  assume "\<forall>b \<in> set resp. \<not> acceptable b"
  then show "fst (getRootCertificate env endpoint fp) = Inl ErrCertificateNotFound"
    using assms by (simp only: getRootCertificate_answered blocks_none)
next
  fix pre block post
  assume h: "resp = pre @ block # post \<and> (\<forall>b \<in> set pre. \<not> acceptable b) \<and> acceptable block"
  then have "getRootCertificate_blocks env fp resp = getRootCertificate_blocks env fp (block # post)"
    by (simp add: blocks_skip del: getRootCertificate_blocks.simps)
  with h assms show "fst (getRootCertificate env endpoint fp) =
      (case ParseCertificate env (Bytes block) of
         None \<Rightarrow> Inl ErrParsingCertificate
       | Some cert \<Rightarrow>
           if EqualFold fp (EncodeToString (Sum256 env (Raw cert)))
           then Inr cert else Inl ErrFingerprintMismatch)"
    by (simp add: getRootCertificate_answered blocks_head del: getRootCertificate_blocks.simps)
qed

theorem getRootCertificate_first_acceptable_witness:
  "DialInsecure env0 ''ca.example:443'' \<and>
   GetRootCertificate_rpc env0 ''ca.example:443'' ''30FF'' = Some root_resp0 \<and>
   fst (getRootCertificate env0 ''ca.example:443'' ''30FF'') = Inr \<lparr>Raw = [0x30, 0xff]\<rparr> \<and>
   GetRootCertificate_rpc (env0\<lparr>GetRootCertificate_rpc := \<lambda>e f. Some (take 2 root_resp0)\<rparr>)
     ''ca.example:443'' ''30FF'' = Some (take 2 root_resp0) \<and>
   fst (getRootCertificate (env0\<lparr>GetRootCertificate_rpc := \<lambda>e f. Some (take 2 root_resp0)\<rparr>)
     ''ca.example:443'' ''30FF'') = Inl ErrCertificateNotFound"
proof -
  let ?env1 = "env0\<lparr>GetRootCertificate_rpc := \<lambda>e f. Some (take 2 root_resp0)\<rparr>"
  have d: "DialInsecure env0 ''ca.example:443''"
    by (simp add: env0_def)
  have r: "GetRootCertificate_rpc env0 ''ca.example:443'' ''30FF'' = Some root_resp0"
    by (simp add: env0_def)
  have sel: "root_resp0 =
       [\<lparr>Type = ''PUBLIC KEY'', Headers = [], Bytes = [0x01]\<rparr>,
        \<lparr>Type = ''CERTIFICATE'', Headers = [(''Proc-Type'', ''4,ENCRYPTED'')], Bytes = [0x02]\<rparr>]
       @ \<lparr>Type = ''CERTIFICATE'', Headers = [], Bytes = [0x30, 0xff]\<rparr>
       # [\<lparr>Type = ''CERTIFICATE'', Headers = [], Bytes = [0x03]\<rparr>] \<and>
     (\<forall>b \<in> set [\<lparr>Type = ''PUBLIC KEY'', Headers = [], Bytes = [0x01]\<rparr>,
        \<lparr>Type = ''CERTIFICATE'', Headers = [(''Proc-Type'', ''4,ENCRYPTED'')], Bytes = [0x02]\<rparr>].
        \<not> acceptable b) \<and>
     acceptable \<lparr>Type = ''CERTIFICATE'', Headers = [], Bytes = [0x30, 0xff]\<rparr>"
    by (simp add: root_resp0_def acceptable_def)
  from getRootCertificate_first_acceptable [OF d r, THEN conjunct2, rule_format, OF sel]
  have ok: "fst (getRootCertificate env0 ''ca.example:443'' ''30FF'') = Inr \<lparr>Raw = [0x30, 0xff]\<rparr>"
    by (simp add: env0_def hextable_def)
  have d1: "DialInsecure ?env1 ''ca.example:443''"
    by (simp add: env0_def)
  have r1: "GetRootCertificate_rpc ?env1 ''ca.example:443'' ''30FF'' = Some (take 2 root_resp0)"
    by simp
  have none: "\<forall>b \<in> set (take 2 root_resp0). \<not> acceptable b"
    by (simp add: root_resp0_def acceptable_def)
  from getRootCertificate_first_acceptable [OF d1 r1, THEN conjunct1, THEN mp, OF none]
  have nf: "fst (getRootCertificate ?env1 ''ca.example:443'' ''30FF'') = Inl ErrCertificateNotFound" .
  from d r ok r1 nf show ?thesis by blast
qed

text \<open>
  C1. When the first CERTIFICATE block without headers of the answer parses to a
  certificate whose SHA-256 digest over its raw DER bytes, in hexadecimal, differs from the
  expected fingerprint under case-insensitive comparison, \<open>getRootCertificate\<close> returns the
  fingerprint-mismatch error and no certificate. And in every world, a certificate that
  \<open>getRootCertificate\<close> returns has a digest that matches the fingerprint.
\<close>

theorem getRootCertificate_fingerprint_mismatch:
  "(\<forall>resp pre block post cert.
      DialInsecure env endpoint \<and> GetRootCertificate_rpc env endpoint fp = Some resp \<and>
      resp = pre @ block # post \<and> (\<forall>b \<in> set pre. \<not> acceptable b) \<and> acceptable block \<and>
      ParseCertificate env (Bytes block) = Some cert \<and>
      \<not> EqualFold fp (EncodeToString (Sum256 env (Raw cert))) \<longrightarrow>
      fst (getRootCertificate env endpoint fp) = Inl ErrFingerprintMismatch) \<and>
   (\<forall>cert. fst (getRootCertificate env endpoint fp) = Inr cert \<longrightarrow>
      EqualFold fp (EncodeToString (Sum256 env (Raw cert))))"
proof (intro conjI allI impI)
  fix resp pre block post cert
  assume h: "DialInsecure env endpoint \<and> GetRootCertificate_rpc env endpoint fp = Some resp \<and>
      resp = pre @ block # post \<and> (\<forall>b \<in> set pre. \<not> acceptable b) \<and> acceptable block \<and>
      ParseCertificate env (Bytes block) = Some cert \<and>
      \<not> EqualFold fp (EncodeToString (Sum256 env (Raw cert)))"
  then have "fst (getRootCertificate env endpoint fp) =
      getRootCertificate_blocks env fp (block # post)"
    by (simp add: getRootCertificate_answered blocks_skip del: getRootCertificate_blocks.simps)
  with h show "fst (getRootCertificate env endpoint fp) = Inl ErrFingerprintMismatch"
    by (simp add: blocks_head del: getRootCertificate_blocks.simps)
next
  fix cert
  assume "fst (getRootCertificate env endpoint fp) = Inr cert"
  then show "EqualFold fp (EncodeToString (Sum256 env (Raw cert)))"
    using getRootCertificate_Inr blocks_Inr by blast
qed

theorem getRootCertificate_fingerprint_mismatch_witness:
  "DialInsecure env0 ''ca.example:443'' \<and>
   GetRootCertificate_rpc env0 ''ca.example:443'' ''30Fe'' = Some root_resp0 \<and>
   ParseCertificate env0 [0x30, 0xff] = Some \<lparr>Raw = [0x30, 0xff]\<rparr> \<and>
   \<not> EqualFold ''30Fe'' (EncodeToString (Sum256 env0 [0x30, 0xff])) \<and>
   fst (getRootCertificate env0 ''ca.example:443'' ''30Fe'') = Inl ErrFingerprintMismatch \<and>
   fst (getRootCertificate env0 ''ca.example:443'' ''30FF'') = Inr \<lparr>Raw = [0x30, 0xff]\<rparr> \<and>
   EqualFold ''30FF'' (EncodeToString (Sum256 env0 [0x30, 0xff]))"
proof -
  have h: "DialInsecure env0 ''ca.example:443'' \<and>
     GetRootCertificate_rpc env0 ''ca.example:443'' ''30Fe'' = Some root_resp0 \<and>
     root_resp0 =
       [\<lparr>Type = ''PUBLIC KEY'', Headers = [], Bytes = [0x01]\<rparr>,
        \<lparr>Type = ''CERTIFICATE'', Headers = [(''Proc-Type'', ''4,ENCRYPTED'')], Bytes = [0x02]\<rparr>]
       @ \<lparr>Type = ''CERTIFICATE'', Headers = [], Bytes = [0x30, 0xff]\<rparr>
       # [\<lparr>Type = ''CERTIFICATE'', Headers = [], Bytes = [0x03]\<rparr>] \<and>
     (\<forall>b \<in> set [\<lparr>Type = ''PUBLIC KEY'', Headers = [], Bytes = [0x01]\<rparr>,
        \<lparr>Type = ''CERTIFICATE'', Headers = [(''Proc-Type'', ''4,ENCRYPTED'')], Bytes = [0x02]\<rparr>].
        \<not> acceptable b) \<and>
     acceptable \<lparr>Type = ''CERTIFICATE'', Headers = [], Bytes = [0x30, 0xff]\<rparr> \<and>
     ParseCertificate env0
       (Bytes \<lparr>Type = ''CERTIFICATE'', Headers = [], Bytes = [0x30, 0xff]\<rparr>)
       = Some \<lparr>Raw = [0x30, 0xff]\<rparr> \<and>
     \<not> EqualFold ''30Fe'' (EncodeToString (Sum256 env0 (Raw \<lparr>Raw = [0x30, 0xff]\<rparr>)))"
    by (simp add: root_resp0_def env0_def acceptable_def hextable_def)
  from getRootCertificate_fingerprint_mismatch [THEN conjunct1, rule_format, OF h]
  have bad: "fst (getRootCertificate env0 ''ca.example:443'' ''30Fe'') = Inl ErrFingerprintMismatch" .
  have good: "fst (getRootCertificate env0 ''ca.example:443'' ''30FF'') = Inr \<lparr>Raw = [0x30, 0xff]\<rparr>"
    by (simp add: getRootCertificate_def env0_def root_resp0_def hextable_def)
  from getRootCertificate_fingerprint_mismatch [THEN conjunct2, rule_format, OF good]
  have m: "EqualFold ''30FF'' (EncodeToString (Sum256 env0 [0x30, 0xff]))" by simp
  from h bad good m show ?thesis by simp
qed

section \<open>login: parsing the response and assembling the certificate\<close>

declare login_intermediates.simps [simp del]

lemma login_bundle_ok:
  "\<forall>b \<in> set blocks. Type b = ''CERTIFICATE'' \<Longrightarrow>
   map (\<lambda>b. ParseCertificate env (Bytes b)) blocks = map Some chain \<Longrightarrow>
   login_bundle env blocks acc = Inr (acc @ chain)"
proof (induction blocks arbitrary: acc chain)
  case Nil
  then show ?case by simp
next
  case (Cons b blocks)
  from Cons.prems(2) obtain c cs where chain: "chain = c # cs"
    and c: "ParseCertificate env (Bytes b) = Some c"
    and cs: "map (\<lambda>b. ParseCertificate env (Bytes b)) blocks = map Some cs"
    by (cases chain) auto
  from Cons.prems(1) have "\<forall>b \<in> set blocks. Type b = ''CERTIFICATE''" by simp
  from Cons.IH [OF this cs] have "login_bundle env blocks (acc @ [c]) = Inr ((acc @ [c]) @ cs)" .
  with Cons.prems(1) c chain show ?case by simp
qed

lemma login_bundle_not_certificate:
  "\<forall>b \<in> set pre. Type b = ''CERTIFICATE'' \<and> ParseCertificate env (Bytes b) \<noteq> None \<Longrightarrow>
   Type b \<noteq> ''CERTIFICATE'' \<Longrightarrow>
   login_bundle env (pre @ b # post) acc = Inl ErrNotCertificateBundle"
  by (induction pre arbitrary: acc) auto

lemma login_bundle_rejects:
  "\<exists>b \<in> set blocks. Type b \<noteq> ''CERTIFICATE'' \<Longrightarrow>
   login_bundle env blocks acc = Inl ErrNotCertificateBundle \<or>
   login_bundle env blocks acc = Inl ErrParsingLoginResponse"
  by (induction blocks arbitrary: acc) (auto split: option.splits)

lemma login_leaf_filter:
  "login_leaf env blocks cert =
   login_leaf env (filter (\<lambda>b. Type b = ''CERTIFICATE'') blocks) cert"
  by (induction blocks arbitrary: cert) (auto split: option.splits)

lemma login_intermediates_fields:
  "lst \<le> length bundle \<Longrightarrow>
   login_intermediates bundle i lst cert =
     cert\<lparr>Certificate := Certificate cert @ map Raw (take (lst - i) (drop i bundle))\<rparr>"
proof (induction "bundle" i lst cert rule: login_intermediates.induct)
  case (1 bs i lst cert)
  show ?case
  proof (cases "i < lst")
    case True
    then have "take (lst - i) (drop i bs) = bs ! i # take (lst - Suc i) (drop (Suc i) bs)"
      using "1.prems" by (metis Cons_nth_drop_Suc Suc_diff_Suc less_le_trans take_Suc_Cons)
    with True 1 show ?thesis
      by (simp add: login_intermediates.simps [of bs i lst cert])
  next
    case False
    then show ?thesis by (simp add: login_intermediates.simps [of bs i lst cert])
  qed
qed

lemma login_intermediates_butlast:
  "login_intermediates bundle 0 (length bundle - 1) cert =
     cert\<lparr>Certificate := Certificate cert @ map Raw (butlast bundle)\<rparr>"
  by (simp add: login_intermediates_fields butlast_conv_take)

lemma login_answered:
  assumes "DialRootCAs env endpoint pool"
    and "Login_rpc env endpoint
           \<lparr>AuthorityId = authority, Token = token,
            PemCertificateRequest =
              [\<lparr>Type = ''CERTIFICATE REQUEST'', Headers = [], Bytes = csr_Raw csr\<rparr>]\<rparr> = Some resp"
  shows "login env authority token csr signer endpoint pool =
     (let evs = [EvDialRootCAs endpoint pool,
                 EvLogin endpoint \<lparr>AuthorityId = authority, Token = token,
                   PemCertificateRequest =
                     [\<lparr>Type = ''CERTIFICATE REQUEST'', Headers = [], Bytes = csr_Raw csr\<rparr>]\<rparr>]
      in case login_bundle env (PemCertificateChain resp) [] of
           Inl e \<Rightarrow> (Inl e, pool, evs)
         | Inr bs \<Rightarrow>
             if bs = [] then (Inl ErrEmptyChain, pool, evs)
             else
               (case login_leaf env (PemCertificate resp)
                       \<lparr>Certificate = [], PrivateKey = signer, Leaf = None\<rparr> of
                  Inl e \<Rightarrow> (Inl e, pool, evs)
                | Inr cert0 \<Rightarrow>
                    (Inr (cert0\<lparr>Certificate := Certificate cert0 @ map Raw (butlast bs)\<rparr>,
                          \<lparr>RootCAs = AddCert (last bs) pool, GetClientCertificate = NoHook\<rparr>),
                     AddCert (last bs) pool, evs)))"
  using assms
  by (auto simp: login_def Let_def login_intermediates_butlast [simplified] last_conv_nth
      split: sum.splits)

lemma AddCert_idem: "AddCert c (AddCert c pool) = AddCert c pool"
  by (simp add: AddCert_def)

text \<open>
  C2 (as amended). Take a login response whose chain field parses to the certificates
  \<open>chain\<close>, at least one, and whose leaf field holds exactly one CERTIFICATE block, which
  parses to the leaf. The certificate list of the resulting \<open>tls.Certificate\<close> is the
  leaf's bytes followed by the raw bytes of every chain entry but the last, the private key
  is the signer, and the last chain entry is added to the pool unless the pool holds it
  already. A second login with the same response on the pool so grown gives the same
  certificate and leaves the pool as it is; so does, for the pool, any later login whose
  chain ends in the same root: the root is added once.
\<close>

theorem login_assembles_chain:
  assumes dial: "DialRootCAs env endpoint pool"
    and rpc: "Login_rpc env endpoint
           \<lparr>AuthorityId = authority, Token = token,
            PemCertificateRequest =
              [\<lparr>Type = ''CERTIFICATE REQUEST'', Headers = [], Bytes = csr_Raw csr\<rparr>]\<rparr> = Some resp"
    and types: "\<forall>b \<in> set (PemCertificateChain resp). Type b = ''CERTIFICATE''"
    and parsed: "map (\<lambda>b. ParseCertificate env (Bytes b)) (PemCertificateChain resp) = map Some chain"
    and nonempty: "chain \<noteq> []"
    and leaf: "filter (\<lambda>b. Type b = ''CERTIFICATE'') (PemCertificate resp) = [lb]"
    and leafp: "ParseCertificate env (Bytes lb) = Some L"
    and pool1: "pool1 = (if last chain \<in> set pool then pool else pool @ [last chain])"
    and dial1: "DialRootCAs env endpoint pool1"
  shows "fst (login env authority token csr signer endpoint pool) =
           Inr (\<lparr>Certificate = Bytes lb # map Raw (butlast chain), PrivateKey = signer,
                  Leaf = Some L\<rparr>,
                \<lparr>RootCAs = pool1, GetClientCertificate = NoHook\<rparr>) \<and>
         fst (snd (login env authority token csr signer endpoint pool)) = pool1 \<and>
         fst (login env authority token csr signer endpoint pool1) =
           fst (login env authority token csr signer endpoint pool) \<and>
         fst (snd (login env authority token csr signer endpoint pool1)) = pool1 \<and>
         (\<forall>world resp2 chain2.
            DialRootCAs world endpoint pool1 \<and>
            Login_rpc world endpoint
              \<lparr>AuthorityId = authority, Token = token,
               PemCertificateRequest =
                 [\<lparr>Type = ''CERTIFICATE REQUEST'', Headers = [], Bytes = csr_Raw csr\<rparr>]\<rparr>
              = Some resp2 \<and>
            (\<forall>b \<in> set (PemCertificateChain resp2). Type b = ''CERTIFICATE'') \<and>
            map (\<lambda>b. ParseCertificate world (Bytes b)) (PemCertificateChain resp2) =
              map Some chain2 \<and>
            chain2 \<noteq> [] \<and> last chain2 = last chain \<longrightarrow>
            fst (snd (login world authority token csr signer endpoint pool1)) = pool1)"
proof -
  have b: "login_bundle env (PemCertificateChain resp) [] = Inr chain"
    using login_bundle_ok [OF types parsed, of "[]"] by simp
  have l: "login_leaf env (PemCertificate resp) \<lparr>Certificate = [], PrivateKey = signer, Leaf = None\<rparr>
      = Inr \<lparr>Certificate = [Bytes lb], PrivateKey = signer, Leaf = Some L\<rparr>"
  proof -
    have "lb \<in> set (filter (\<lambda>b. Type b = ''CERTIFICATE'') (PemCertificate resp))"
      by (simp add: leaf)
    then have "Type lb = ''CERTIFICATE''" by simp
    then show ?thesis
      by (subst login_leaf_filter) (simp add: leaf leafp)
  qed
  have p: "AddCert (last chain) pool = pool1"
    by (simp add: AddCert_def pool1)
  have p1: "AddCert (last chain) pool1 = pool1"
    using AddCert_idem [of "last chain" pool] by (simp add: p)
  have rpc1: "Login_rpc env endpoint
           \<lparr>AuthorityId = authority, Token = token,
            PemCertificateRequest =
              [\<lparr>Type = ''CERTIFICATE REQUEST'', Headers = [], Bytes = csr_Raw csr\<rparr>]\<rparr> = Some resp"
    by (rule rpc)
  have again: "\<forall>world resp2 chain2.
            DialRootCAs world endpoint pool1 \<and>
            Login_rpc world endpoint
              \<lparr>AuthorityId = authority, Token = token,
               PemCertificateRequest =
                 [\<lparr>Type = ''CERTIFICATE REQUEST'', Headers = [], Bytes = csr_Raw csr\<rparr>]\<rparr>
              = Some resp2 \<and>
            (\<forall>b \<in> set (PemCertificateChain resp2). Type b = ''CERTIFICATE'') \<and>
            map (\<lambda>b. ParseCertificate world (Bytes b)) (PemCertificateChain resp2) =
              map Some chain2 \<and>
            chain2 \<noteq> [] \<and> last chain2 = last chain \<longrightarrow>
            fst (snd (login world authority token csr signer endpoint pool1)) = pool1"
  proof (intro allI impI)
    fix world :: env and resp2 chain2
    assume h: "DialRootCAs world endpoint pool1 \<and>
            Login_rpc world endpoint
              \<lparr>AuthorityId = authority, Token = token,
               PemCertificateRequest =
                 [\<lparr>Type = ''CERTIFICATE REQUEST'', Headers = [], Bytes = csr_Raw csr\<rparr>]\<rparr>
              = Some resp2 \<and>
            (\<forall>b \<in> set (PemCertificateChain resp2). Type b = ''CERTIFICATE'') \<and>
            map (\<lambda>b. ParseCertificate world (Bytes b)) (PemCertificateChain resp2) =
              map Some chain2 \<and>
            chain2 \<noteq> [] \<and> last chain2 = last chain"
    then have d2: "DialRootCAs world endpoint pool1"
      and r2: "Login_rpc world endpoint
              \<lparr>AuthorityId = authority, Token = token,
               PemCertificateRequest =
                 [\<lparr>Type = ''CERTIFICATE REQUEST'', Headers = [], Bytes = csr_Raw csr\<rparr>]\<rparr>
              = Some resp2"
      and t2: "\<forall>b \<in> set (PemCertificateChain resp2). Type b = ''CERTIFICATE''"
      and m2: "map (\<lambda>b. ParseCertificate world (Bytes b)) (PemCertificateChain resp2) =
              map Some chain2"
      and n2: "chain2 \<noteq> []" and l2: "last chain2 = last chain"
      by blast+
    have b2: "login_bundle world (PemCertificateChain resp2) [] = Inr chain2"
      using login_bundle_ok [OF t2 m2, of "[]"] by simp
    show "fst (snd (login world authority token csr signer endpoint pool1)) = pool1"
      using p1 by (simp add: login_answered [OF d2 r2] b2 n2 l2 Let_def split: sum.splits)
  qed
  have first: "fst (login env authority token csr signer endpoint pool) =
           Inr (\<lparr>Certificate = Bytes lb # map Raw (butlast chain), PrivateKey = signer,
                  Leaf = Some L\<rparr>,
                \<lparr>RootCAs = pool1, GetClientCertificate = NoHook\<rparr>) \<and>
         fst (snd (login env authority token csr signer endpoint pool)) = pool1 \<and>
         fst (login env authority token csr signer endpoint pool1) =
           fst (login env authority token csr signer endpoint pool) \<and>
         fst (snd (login env authority token csr signer endpoint pool1)) = pool1"
    by (simp add: login_answered [OF dial rpc] login_answered [OF dial1 rpc1] b l nonempty p p1)
  from first again show ?thesis by blast
qed

theorem login_assembles_chain_witness:
  "fst (login (env_login login_resp0) ''a1'' ''tok'' \<lparr>csr_Raw = [0x07]\<rparr> (Key [0x01]) ''ca.example:443''
          [\<lparr>Raw = [0x30, 0xff]\<rparr>]) =
     Inr (\<lparr>Certificate = [[0x30, 0x01], [0x30, 0x02]], PrivateKey = Key [0x01],
            Leaf = Some \<lparr>Raw = [0x30, 0x01]\<rparr>\<rparr>,
          \<lparr>RootCAs = [\<lparr>Raw = [0x30, 0xff]\<rparr>, \<lparr>Raw = [0x30, 0x03]\<rparr>],
            GetClientCertificate = NoHook\<rparr>) \<and>
   fst (snd (login (env_login login_resp0) ''a1'' ''tok'' \<lparr>csr_Raw = [0x07]\<rparr> (Key [0x01])
          ''ca.example:443'' [\<lparr>Raw = [0x30, 0xff]\<rparr>])) =
     [\<lparr>Raw = [0x30, 0xff]\<rparr>, \<lparr>Raw = [0x30, 0x03]\<rparr>] \<and>
   fst (snd (login (env_login login_resp0) ''a1'' ''tok'' \<lparr>csr_Raw = [0x07]\<rparr> (Key [0x01])
          ''ca.example:443'' [\<lparr>Raw = [0x30, 0xff]\<rparr>, \<lparr>Raw = [0x30, 0x03]\<rparr>])) =
     [\<lparr>Raw = [0x30, 0xff]\<rparr>, \<lparr>Raw = [0x30, 0x03]\<rparr>]"
proof -
  let ?env = "env_login login_resp0"
  let ?chain = "[\<lparr>Raw = [0x30, 0x02]\<rparr>, \<lparr>Raw = [0x30, 0x03 :: byte]\<rparr>]"
  let ?pool = "[\<lparr>Raw = [0x30, 0xff :: byte]\<rparr>]"
  let ?pool1 = "[\<lparr>Raw = [0x30, 0xff]\<rparr>, \<lparr>Raw = [0x30, 0x03 :: byte]\<rparr>]"
  have dial: "DialRootCAs ?env ''ca.example:443'' ?pool"
    by (simp add: env_login_def env0_def)
  have rpc: "Login_rpc ?env ''ca.example:443''
      \<lparr>AuthorityId = ''a1'', Token = ''tok'',
       PemCertificateRequest =
         [\<lparr>Type = ''CERTIFICATE REQUEST'', Headers = [],
           Bytes = csr_Raw \<lparr>csr_Raw = [0x07]\<rparr>\<rparr>]\<rparr> = Some login_resp0"
    by (simp add: env_login_def)
  have types: "\<forall>b \<in> set (PemCertificateChain login_resp0). Type b = ''CERTIFICATE''"
    by (simp add: login_resp0_def)
  have parsed: "map (\<lambda>b. ParseCertificate ?env (Bytes b)) (PemCertificateChain login_resp0)
      = map Some ?chain"
    by (simp add: login_resp0_def env_login_def env0_def)
  have nonempty: "?chain \<noteq> []" by simp
  have leaf: "filter (\<lambda>b. Type b = ''CERTIFICATE'') (PemCertificate login_resp0)
      = [\<lparr>Type = ''CERTIFICATE'', Headers = [], Bytes = [0x30, 0x01]\<rparr>]"
    by (simp add: login_resp0_def)
  have leafp: "ParseCertificate ?env
      (Bytes \<lparr>Type = ''CERTIFICATE'', Headers = [], Bytes = [0x30, 0x01]\<rparr>)
      = Some \<lparr>Raw = [0x30, 0x01]\<rparr>"
    by (simp add: env_login_def env0_def)
  have pool1: "?pool1 = (if last ?chain \<in> set ?pool then ?pool else ?pool @ [last ?chain])"
    by simp
  have dial1: "DialRootCAs ?env ''ca.example:443'' ?pool1"
    by (simp add: env_login_def env0_def)
  from login_assembles_chain [OF dial rpc types parsed nonempty leaf leafp pool1 dial1,
      of "Key [0x01]"]
  show ?thesis by simp
qed

text \<open>
  C2 as stated fails: nothing limits the leaf field to one certificate. Here it holds two
  CERTIFICATE blocks; the login succeeds, the leaf is the second of them, and the
  certificate list holds the bytes of both before the intermediate, three entries where
  the claim has the leaf and the intermediate only.
\<close>

theorem login_two_leaf_blocks_counterexample:
  "fst (login (env_login login_resp_two_leaves) ''a1'' ''tok'' \<lparr>csr_Raw = [0x07]\<rparr> (Key [0x01])
          ''ca.example:443'' [\<lparr>Raw = [0x30, 0xff]\<rparr>]) =
     Inr (\<lparr>Certificate = [[0x30, 0x01], [0x30, 0x09], [0x30, 0x02]], PrivateKey = Key [0x01],
            Leaf = Some \<lparr>Raw = [0x30, 0x09]\<rparr>\<rparr>,
          \<lparr>RootCAs = [\<lparr>Raw = [0x30, 0xff]\<rparr>, \<lparr>Raw = [0x30, 0x03]\<rparr>],
            GetClientCertificate = NoHook\<rparr>)"
  by (simp add: login_def Let_def login_resp_two_leaves_def login_resp0_def env_login_def
      env0_def login_intermediates.simps AddCert_def)

text \<open>
  C10. When the chain field is a valid, non-empty bundle and the leaf field holds no
  CERTIFICATE block, \<open>login\<close> reports no error: it returns a \<open>tls.Certificate\<close> whose
  leaf is nil and whose certificate list holds the raw bytes of the chain entries but the
  last, and nothing else.
\<close>

theorem login_missing_leaf:
  assumes dial: "DialRootCAs env endpoint pool"
    and rpc: "Login_rpc env endpoint
           \<lparr>AuthorityId = authority, Token = token,
            PemCertificateRequest =
              [\<lparr>Type = ''CERTIFICATE REQUEST'', Headers = [], Bytes = csr_Raw csr\<rparr>]\<rparr> = Some resp"
    and types: "\<forall>b \<in> set (PemCertificateChain resp). Type b = ''CERTIFICATE''"
    and parsed: "map (\<lambda>b. ParseCertificate env (Bytes b)) (PemCertificateChain resp) = map Some chain"
    and nonempty: "chain \<noteq> []"
    and noleaf: "\<forall>b \<in> set (PemCertificate resp). Type b \<noteq> ''CERTIFICATE''"
  shows "fst (login env authority token csr signer endpoint pool) =
           Inr (\<lparr>Certificate = map Raw (butlast chain), PrivateKey = signer, Leaf = None\<rparr>,
                \<lparr>RootCAs = AddCert (last chain) pool, GetClientCertificate = NoHook\<rparr>)"
proof -
  have b: "login_bundle env (PemCertificateChain resp) [] = Inr chain"
    using login_bundle_ok [OF types parsed, of "[]"] by simp
  from noleaf have "filter (\<lambda>b. Type b = ''CERTIFICATE'') (PemCertificate resp) = []"
    by (simp add: filter_empty_conv)
  then have l: "login_leaf env (PemCertificate resp) \<lparr>Certificate = [], PrivateKey = signer, Leaf = None\<rparr>
      = Inr \<lparr>Certificate = [], PrivateKey = signer, Leaf = None\<rparr>"
    by (subst login_leaf_filter) simp
  show ?thesis
    by (simp add: login_answered [OF dial rpc] b l nonempty)
qed

theorem login_missing_leaf_witness:
  "fst (login (env_login login_resp_noleaf) ''a1'' ''tok'' \<lparr>csr_Raw = [0x07]\<rparr> (Key [0x01])
          ''ca.example:443'' [\<lparr>Raw = [0x30, 0xff]\<rparr>]) =
     Inr (\<lparr>Certificate = [[0x30, 0x02]], PrivateKey = Key [0x01], Leaf = None\<rparr>,
          \<lparr>RootCAs = [\<lparr>Raw = [0x30, 0xff]\<rparr>, \<lparr>Raw = [0x30, 0x03]\<rparr>],
            GetClientCertificate = NoHook\<rparr>)"
proof -
  let ?env = "env_login login_resp_noleaf"
  let ?chain = "[\<lparr>Raw = [0x30, 0x02]\<rparr>, \<lparr>Raw = [0x30, 0x03 :: byte]\<rparr>]"
  let ?pool = "[\<lparr>Raw = [0x30, 0xff :: byte]\<rparr>]"
  have dial: "DialRootCAs ?env ''ca.example:443'' ?pool"
    by (simp add: env_login_def env0_def)
  have rpc: "Login_rpc ?env ''ca.example:443''
      \<lparr>AuthorityId = ''a1'', Token = ''tok'',
       PemCertificateRequest =
         [\<lparr>Type = ''CERTIFICATE REQUEST'', Headers = [],
           Bytes = csr_Raw \<lparr>csr_Raw = [0x07]\<rparr>\<rparr>]\<rparr> = Some login_resp_noleaf"
    by (simp add: env_login_def)
  have types: "\<forall>b \<in> set (PemCertificateChain login_resp_noleaf). Type b = ''CERTIFICATE''"
    by (simp add: login_resp_noleaf_def login_resp0_def)
  have parsed: "map (\<lambda>b. ParseCertificate ?env (Bytes b)) (PemCertificateChain login_resp_noleaf)
      = map Some ?chain"
    by (simp add: login_resp_noleaf_def login_resp0_def env_login_def env0_def)
  have nonempty: "?chain \<noteq> []" by simp
  have noleaf: "\<forall>b \<in> set (PemCertificate login_resp_noleaf). Type b \<noteq> ''CERTIFICATE''"
    by (simp add: login_resp_noleaf_def)
  from login_missing_leaf [OF dial rpc types parsed nonempty noleaf, of "Key [0x01]"]
  show ?thesis by (simp add: AddCert_def)
qed

lemma login_bundle_first_other:
  "\<forall>x \<in> set pre. Type x = ''CERTIFICATE'' \<Longrightarrow> Type b \<noteq> ''CERTIFICATE'' \<Longrightarrow>
   login_bundle env (pre @ b # post) acc =
     (if \<forall>x \<in> set pre. ParseCertificate env (Bytes x) \<noteq> None
      then Inl ErrNotCertificateBundle else Inl ErrParsingLoginResponse)"
proof (induction pre arbitrary: acc)
  case Nil
  then show ?case by simp
next
  case (Cons x pre)
  from Cons.prems have t: "Type x = ''CERTIFICATE''"
    and rest: "\<forall>x \<in> set pre. Type x = ''CERTIFICATE''" by simp_all
  show ?case
  proof (cases "ParseCertificate env (Bytes x)")
    case None
    with t show ?thesis by simp
  next
    case (Some crt)
    with t Cons.IH [OF rest Cons.prems(2), of "acc @ [crt]"] show ?thesis by simp
  qed
qed

text \<open>
  C3 (as amended). A login response whose chain field decodes to no block is refused
  with the empty-chain error. A response whose chain field holds a block that is not of
  type CERTIFICATE is refused as a whole: with the invalid-chain-format error when every
  block before the first such block parses as a certificate, and otherwise with the parse
  error, raised for a block before it. In each of these cases no certificate and no TLS
  configuration is returned and the trust pool is left as it was.
\<close>

theorem login_rejects_bad_chain:
  assumes dial: "DialRootCAs env endpoint pool"
    and rpc: "Login_rpc env endpoint
           \<lparr>AuthorityId = authority, Token = token,
            PemCertificateRequest =
              [\<lparr>Type = ''CERTIFICATE REQUEST'', Headers = [], Bytes = csr_Raw csr\<rparr>]\<rparr> = Some resp"
  shows "(PemCertificateChain resp = [] \<longrightarrow>
            fst (login env authority token csr signer endpoint pool) = Inl ErrEmptyChain \<and>
            fst (snd (login env authority token csr signer endpoint pool)) = pool) \<and>
         ((\<exists>b \<in> set (PemCertificateChain resp). Type b \<noteq> ''CERTIFICATE'') \<longrightarrow>
            (fst (login env authority token csr signer endpoint pool) = Inl ErrNotCertificateBundle \<or>
             fst (login env authority token csr signer endpoint pool) = Inl ErrParsingLoginResponse) \<and>
            fst (snd (login env authority token csr signer endpoint pool)) = pool) \<and>
         (\<forall>pre b post.
            PemCertificateChain resp = pre @ b # post \<and>
            (\<forall>x \<in> set pre. Type x = ''CERTIFICATE'' \<and> ParseCertificate env (Bytes x) \<noteq> None) \<and>
            Type b \<noteq> ''CERTIFICATE'' \<longrightarrow>
            fst (login env authority token csr signer endpoint pool) = Inl ErrNotCertificateBundle) \<and>
         (\<forall>pre b post.
            PemCertificateChain resp = pre @ b # post \<and>
            (\<forall>x \<in> set pre. Type x = ''CERTIFICATE'') \<and> Type b \<noteq> ''CERTIFICATE'' \<longrightarrow>
            fst (login env authority token csr signer endpoint pool) =
              (if \<forall>x \<in> set pre. ParseCertificate env (Bytes x) \<noteq> None
               then Inl ErrNotCertificateBundle else Inl ErrParsingLoginResponse) \<and>
            fst (snd (login env authority token csr signer endpoint pool)) = pool)"
proof -
  have c1: "PemCertificateChain resp = [] \<longrightarrow>
            fst (login env authority token csr signer endpoint pool) = Inl ErrEmptyChain \<and>
            fst (snd (login env authority token csr signer endpoint pool)) = pool"
    by (simp add: login_answered [OF dial rpc])
  have c2: "(\<exists>b \<in> set (PemCertificateChain resp). Type b \<noteq> ''CERTIFICATE'') \<longrightarrow>
            (fst (login env authority token csr signer endpoint pool) = Inl ErrNotCertificateBundle \<or>
             fst (login env authority token csr signer endpoint pool) = Inl ErrParsingLoginResponse) \<and>
            fst (snd (login env authority token csr signer endpoint pool)) = pool"
  proof
    assume "\<exists>b \<in> set (PemCertificateChain resp). Type b \<noteq> ''CERTIFICATE''"
    from login_bundle_rejects [OF this, of env "[]"]
    show "(fst (login env authority token csr signer endpoint pool) = Inl ErrNotCertificateBundle \<or>
        fst (login env authority token csr signer endpoint pool) = Inl ErrParsingLoginResponse) \<and>
        fst (snd (login env authority token csr signer endpoint pool)) = pool"
      by (auto simp: login_answered [OF dial rpc])
  qed
  have c3: "\<forall>pre b post.
            PemCertificateChain resp = pre @ b # post \<and>
            (\<forall>x \<in> set pre. Type x = ''CERTIFICATE'' \<and> ParseCertificate env (Bytes x) \<noteq> None) \<and>
            Type b \<noteq> ''CERTIFICATE'' \<longrightarrow>
            fst (login env authority token csr signer endpoint pool) = Inl ErrNotCertificateBundle"
  proof (intro allI impI)
    fix pre b post
    assume "PemCertificateChain resp = pre @ b # post \<and>
            (\<forall>x \<in> set pre. Type x = ''CERTIFICATE'' \<and> ParseCertificate env (Bytes x) \<noteq> None) \<and>
            Type b \<noteq> ''CERTIFICATE''"
    then have "login_bundle env (PemCertificateChain resp) [] = Inl ErrNotCertificateBundle"
      using login_bundle_not_certificate [of pre env b post "[]"] by simp
    then show "fst (login env authority token csr signer endpoint pool) = Inl ErrNotCertificateBundle"
      by (simp add: login_answered [OF dial rpc])
  qed
  have c4: "\<forall>pre b post.
            PemCertificateChain resp = pre @ b # post \<and>
            (\<forall>x \<in> set pre. Type x = ''CERTIFICATE'') \<and> Type b \<noteq> ''CERTIFICATE'' \<longrightarrow>
            fst (login env authority token csr signer endpoint pool) =
              (if \<forall>x \<in> set pre. ParseCertificate env (Bytes x) \<noteq> None
               then Inl ErrNotCertificateBundle else Inl ErrParsingLoginResponse) \<and>
            fst (snd (login env authority token csr signer endpoint pool)) = pool"
  proof (intro allI impI)
    fix pre b post
    assume h: "PemCertificateChain resp = pre @ b # post \<and>
            (\<forall>x \<in> set pre. Type x = ''CERTIFICATE'') \<and> Type b \<noteq> ''CERTIFICATE''"
    then have "login_bundle env (PemCertificateChain resp) [] =
        (if \<forall>x \<in> set pre. ParseCertificate env (Bytes x) \<noteq> None
         then Inl ErrNotCertificateBundle else Inl ErrParsingLoginResponse)"
      using login_bundle_first_other [of pre b env post "[]"] by simp
    then show "fst (login env authority token csr signer endpoint pool) =
              (if \<forall>x \<in> set pre. ParseCertificate env (Bytes x) \<noteq> None
               then Inl ErrNotCertificateBundle else Inl ErrParsingLoginResponse) \<and>
            fst (snd (login env authority token csr signer endpoint pool)) = pool"
      by (simp add: login_answered [OF dial rpc])
  qed
  from c1 c2 c3 c4 show ?thesis by blast
qed

theorem login_rejects_bad_chain_witness:
  "fst (login (env_login login_resp_empty) ''a1'' ''tok'' \<lparr>csr_Raw = [0x07]\<rparr> (Key [0x01])
          ''ca.example:443'' [\<lparr>Raw = [0x30, 0xff]\<rparr>]) = Inl ErrEmptyChain \<and>
   fst (snd (login (env_login login_resp_empty) ''a1'' ''tok'' \<lparr>csr_Raw = [0x07]\<rparr> (Key [0x01])
          ''ca.example:443'' [\<lparr>Raw = [0x30, 0xff]\<rparr>])) = [\<lparr>Raw = [0x30, 0xff]\<rparr>] \<and>
   fst (login (env_login login_resp_key) ''a1'' ''tok'' \<lparr>csr_Raw = [0x07]\<rparr> (Key [0x01])
          ''ca.example:443'' [\<lparr>Raw = [0x30, 0xff]\<rparr>]) = Inl ErrNotCertificateBundle \<and>
   ParseCertificate (env_login login_resp_good_garbage_key) [0x00] = None \<and>
   fst (login (env_login login_resp_good_garbage_key) ''a1'' ''tok'' \<lparr>csr_Raw = [0x07]\<rparr>
          (Key [0x01]) ''ca.example:443'' [\<lparr>Raw = [0x30, 0xff]\<rparr>]) = Inl ErrParsingLoginResponse \<and>
   fst (snd (login (env_login login_resp_good_garbage_key) ''a1'' ''tok'' \<lparr>csr_Raw = [0x07]\<rparr>
          (Key [0x01]) ''ca.example:443'' [\<lparr>Raw = [0x30, 0xff]\<rparr>])) = [\<lparr>Raw = [0x30, 0xff]\<rparr>]"
proof -
  let ?pool = "[\<lparr>Raw = [0x30, 0xff :: byte]\<rparr>]"
  have dial: "DialRootCAs (env_login login_resp_empty) ''ca.example:443'' ?pool"
    by (simp add: env_login_def env0_def)
  have rpc: "Login_rpc (env_login login_resp_empty) ''ca.example:443''
      \<lparr>AuthorityId = ''a1'', Token = ''tok'',
       PemCertificateRequest =
         [\<lparr>Type = ''CERTIFICATE REQUEST'', Headers = [],
           Bytes = csr_Raw \<lparr>csr_Raw = [0x07]\<rparr>\<rparr>]\<rparr> = Some login_resp_empty"
    by (simp add: env_login_def)
  have empty: "PemCertificateChain login_resp_empty = []"
    by (simp add: login_resp_empty_def)
  from login_rejects_bad_chain [OF dial rpc, of "Key [0x01]", THEN conjunct1, THEN mp, OF empty]
  have a: "fst (login (env_login login_resp_empty) ''a1'' ''tok'' \<lparr>csr_Raw = [0x07]\<rparr> (Key [0x01])
          ''ca.example:443'' ?pool) = Inl ErrEmptyChain \<and>
     fst (snd (login (env_login login_resp_empty) ''a1'' ''tok'' \<lparr>csr_Raw = [0x07]\<rparr> (Key [0x01])
          ''ca.example:443'' ?pool)) = ?pool" .
  have dial': "DialRootCAs (env_login login_resp_key) ''ca.example:443'' ?pool"
    by (simp add: env_login_def env0_def)
  have rpc': "Login_rpc (env_login login_resp_key) ''ca.example:443''
      \<lparr>AuthorityId = ''a1'', Token = ''tok'',
       PemCertificateRequest =
         [\<lparr>Type = ''CERTIFICATE REQUEST'', Headers = [],
           Bytes = csr_Raw \<lparr>csr_Raw = [0x07]\<rparr>\<rparr>]\<rparr> = Some login_resp_key"
    by (simp add: env_login_def)
  have split: "PemCertificateChain login_resp_key =
        [\<lparr>Type = ''CERTIFICATE'', Headers = [], Bytes = [0x30, 0x02]\<rparr>]
        @ \<lparr>Type = ''PUBLIC KEY'', Headers = [], Bytes = [0x30, 0x03]\<rparr> # [] \<and>
      (\<forall>x \<in> set [\<lparr>Type = ''CERTIFICATE'', Headers = [], Bytes = [0x30, 0x02]\<rparr>].
         Type x = ''CERTIFICATE'' \<and>
         ParseCertificate (env_login login_resp_key) (Bytes x) \<noteq> None) \<and>
      Type \<lparr>Type = ''PUBLIC KEY'', Headers = [], Bytes = [0x30, 0x03]\<rparr> \<noteq> ''CERTIFICATE''"
    by (simp add: login_resp_key_def env_login_def env0_def)
  from login_rejects_bad_chain [OF dial' rpc', of "Key [0x01]", THEN conjunct2, THEN conjunct2,
      THEN conjunct1, THEN spec, THEN spec, THEN spec, THEN mp, OF split]
  have b: "fst (login (env_login login_resp_key) ''a1'' ''tok'' \<lparr>csr_Raw = [0x07]\<rparr> (Key [0x01])
          ''ca.example:443'' ?pool) = Inl ErrNotCertificateBundle" .
  have dial'': "DialRootCAs (env_login login_resp_good_garbage_key) ''ca.example:443'' ?pool"
    by (simp add: env_login_def env0_def)
  have rpc'': "Login_rpc (env_login login_resp_good_garbage_key) ''ca.example:443''
      \<lparr>AuthorityId = ''a1'', Token = ''tok'',
       PemCertificateRequest =
         [\<lparr>Type = ''CERTIFICATE REQUEST'', Headers = [],
           Bytes = csr_Raw \<lparr>csr_Raw = [0x07]\<rparr>\<rparr>]\<rparr> = Some login_resp_good_garbage_key"
    by (simp add: env_login_def)
  have g: "ParseCertificate (env_login login_resp_good_garbage_key) [0x00] = None"
    by (simp add: env_login_def env0_def)
  have split': "PemCertificateChain login_resp_good_garbage_key =
        [\<lparr>Type = ''CERTIFICATE'', Headers = [], Bytes = [0x30, 0x02]\<rparr>,
         \<lparr>Type = ''CERTIFICATE'', Headers = [], Bytes = [0x00]\<rparr>]
        @ \<lparr>Type = ''PUBLIC KEY'', Headers = [], Bytes = [0x30, 0x03]\<rparr> # [] \<and>
      (\<forall>x \<in> set [\<lparr>Type = ''CERTIFICATE'', Headers = [], Bytes = [0x30, 0x02]\<rparr>,
                   \<lparr>Type = ''CERTIFICATE'', Headers = [], Bytes = [0x00]\<rparr>].
         Type x = ''CERTIFICATE'') \<and>
      Type \<lparr>Type = ''PUBLIC KEY'', Headers = [], Bytes = [0x30, 0x03]\<rparr> \<noteq> ''CERTIFICATE''"
    by (simp add: login_resp_good_garbage_key_def)
  from login_rejects_bad_chain [OF dial'' rpc'', of "Key [0x01]", THEN conjunct2, THEN conjunct2,
      THEN conjunct2, THEN spec, THEN spec, THEN spec, THEN mp, OF split'] g
  have c: "fst (login (env_login login_resp_good_garbage_key) ''a1'' ''tok'' \<lparr>csr_Raw = [0x07]\<rparr>
          (Key [0x01]) ''ca.example:443'' ?pool) = Inl ErrParsingLoginResponse \<and>
     fst (snd (login (env_login login_resp_good_garbage_key) ''a1'' ''tok'' \<lparr>csr_Raw = [0x07]\<rparr>
          (Key [0x01]) ''ca.example:443'' ?pool)) = ?pool"
    by simp
  from a b g c show ?thesis by blast
qed

text \<open>
  C3 as stated fails: the second block of this chain is not a certificate, yet the
  response is refused with the parse error of the first block, not with the
  invalid-chain-format error.
\<close>

theorem login_parse_error_first_counterexample:
  "Type (PemCertificateChain login_resp_garbage ! 1) \<noteq> ''CERTIFICATE'' \<and>
   fst (login (env_login login_resp_garbage) ''a1'' ''tok'' \<lparr>csr_Raw = [0x07]\<rparr> (Key [0x01])
          ''ca.example:443'' [\<lparr>Raw = [0x30, 0xff]\<rparr>]) = Inl ErrParsingLoginResponse"
  by (simp add: login_def login_resp_garbage_def login_resp0_def env_login_def env0_def)

section \<open>newLinkedCAClient: the bootstrap and the renewals\<close>

lemma getRootCertificate_events:
  "\<forall>ev \<in> set (snd (getRootCertificate env endpoint fp)). \<not> started ev"
  by (simp add: getRootCertificate_def split: option.splits)

lemma login_events:
  "\<forall>ev \<in> set (snd (snd (login env authority token csr signer endpoint pool))).
     login_event authority token csr endpoint ev"
  by (simp add: login_def Let_def split: option.splits sum.splits)

lemma login_event_not_started: "login_event authority token csr endpoint ev \<Longrightarrow> \<not> started ev"
  by (cases ev) auto

lemma login_not_started:
  "\<forall>ev \<in> set (snd (snd (login env authority token csr signer endpoint pool))). \<not> started ev"
  using login_events login_event_not_started by blast

text \<open>
  Either the construction ends in an error before anything is started, or every stage of
  the bootstrap has succeeded.
\<close>

lemma newLinkedCAClient_stages:
  "(\<exists>e. fst (newLinkedCAClient env token) = Inl e \<and>
        (\<forall>ev \<in> set (snd (newLinkedCAClient env token)). \<not> started ev)) \<or>
   (\<exists>tok claims u authority signer csr root cert cfg.
      ParseSigned env token = Some tok \<and>
      UnsafeClaimsWithoutVerification env tok = Some claims \<and>
      length (Audience claims) = 1 \<and> SHA claims \<noteq> [] \<and>
      url_Parse env (Audience claims ! 0) = Some u \<and>
      getAuthority (SANs claims) = Inr authority \<and>
      GenerateDefaultSigner env = Some signer \<and>
      CreateCertificateRequest env (Subject claims) (SANs claims) signer = Some csr \<and>
      fst (getRootCertificate env (Host u) (SHA claims)) = Inr root \<and>
      fst (login env authority token csr signer (Host u) (AddCert root [])) = Inr (cert, cfg))"
proof (cases "ParseSigned env token")
  case None
  then show ?thesis by (simp add: newLinkedCAClient_def)
next
  case tok: (Some tok)
  show ?thesis
  proof (cases "UnsafeClaimsWithoutVerification env tok")
    case None
    with tok show ?thesis by (simp add: newLinkedCAClient_def)
  next
    case claims: (Some claims)
    show ?thesis
    proof (cases "length (Audience claims) = 1 \<and> SHA claims \<noteq> []")
      case False
      with tok claims show ?thesis by (auto simp: newLinkedCAClient_def)
    next
      case valid: True
      show ?thesis
      proof (cases "url_Parse env (Audience claims ! 0)")
        case None
        with tok claims valid show ?thesis by (simp add: newLinkedCAClient_def)
      next
        case u: (Some u)
        show ?thesis
        proof (cases "getAuthority (SANs claims)")
          case (Inl e)
          with tok claims valid u show ?thesis by (simp add: newLinkedCAClient_def)
        next
          case authority: (Inr authority)
          show ?thesis
          proof (cases "GenerateDefaultSigner env")
            case None
            with tok claims valid u authority show ?thesis by (simp add: newLinkedCAClient_def)
          next
            case signer: (Some signer)
            show ?thesis
            proof (cases "CreateCertificateRequest env (Subject claims) (SANs claims) signer")
              case None
              with tok claims valid u authority signer show ?thesis
                by (simp add: newLinkedCAClient_def)
            next
              case csr: (Some csr)
              obtain r1 evs1 where root: "getRootCertificate env (Host u) (SHA claims) = (r1, evs1)"
                by (cases "getRootCertificate env (Host u) (SHA claims)")
              have evs1: "\<forall>ev \<in> set evs1. \<not> started ev"
                using getRootCertificate_events [of env "Host u" "SHA claims"] root by simp
              show ?thesis
              proof (cases r1)
                case (Inl e)
                with tok claims valid u authority signer csr root evs1 show ?thesis
                  by (simp add: newLinkedCAClient_def)
              next
                case r: (Inr rootc)
                obtain r2 pool evs2 where
                  lg: "login env authority token csr signer (Host u) (AddCert rootc []) = (r2, pool, evs2)"
                  by (cases "login env authority token csr signer (Host u) (AddCert rootc [])")
                have evs2: "\<forall>ev \<in> set evs2. \<not> started ev"
                  using login_not_started [of env authority token csr signer "Host u" "AddCert rootc []"] lg
                  by simp
                show ?thesis
                proof (cases r2)
                  case (Inl e)
                  with tok claims valid u authority signer csr root r lg evs1 evs2 show ?thesis
                    by (auto simp: newLinkedCAClient_def)
                next
                  case (Inr cc)
                  obtain cert cfg where cc: "cc = (cert, cfg)" by (cases cc)
                  have "fst (getRootCertificate env (Host u) (SHA claims)) = Inr rootc"
                    using root r by simp
                  moreover have "fst (login env authority token csr signer (Host u) (AddCert rootc []))
                      = Inr (cert, cfg)"
                    using lg Inr cc by simp
                  ultimately show ?thesis
                    using tok claims valid u authority signer csr by blast
                qed
              qed
            qed
          qed
        qed
      qed
    qed
  qed
qed








lemma login_leaf_key:
  "login_leaf env blocks cert = Inr c \<Longrightarrow> PrivateKey c = PrivateKey cert"
  by (induction blocks arbitrary: cert) (auto split: if_splits option.splits)

lemma login_intermediates_key:
  "PrivateKey (login_intermediates bs i lst cert) = PrivateKey cert"
proof (induction bs i lst cert rule: login_intermediates.induct)
  case (1 bs i lst cert)
  then show ?case by (simp add: login_intermediates.simps [of bs i lst cert])
qed

lemma login_result:
  "login env authority token csr signer endpoint pool = (Inr (c, cfg), pool', evs) \<Longrightarrow>
   PrivateKey c = signer \<and> RootCAs cfg = pool'"
  by (auto simp: login_def Let_def login_intermediates_key
      split: if_splits option.splits sum.splits dest: login_leaf_key)

lemma renewals_Cons:
  "renewals r (w # ws) p =
     ((fst (renewCertificate r w p), snd (snd (renewCertificate r w p))) #
        fst (renewals r ws (fst (snd (renewCertificate r w p)))),
      snd (renewals r ws (fst (snd (renewCertificate r w p)))))"
  by (simp add: case_prod_unfold)

lemma renewals_length: "length (fst (renewals r worlds p)) = length worlds"
  by (induction worlds arbitrary: p) (simp_all add: renewals_Cons del: renewals.simps(2))

lemma pool_before_0: "pool_before r worlds p 0 = p"
  by (simp add: pool_before_def)

lemma pool_before_Cons:
  "pool_before r (w # ws) p (Suc i) = pool_before r ws (fst (snd (renewCertificate r w p))) i"
  by (simp add: pool_before_def renewals_Cons del: renewals.simps(2))

lemma renewals_nth:
  "k < length worlds \<Longrightarrow>
   fst (renewals r worlds p) ! k =
     (fst (renewCertificate r (worlds ! k) (pool_before r worlds p k)),
      snd (snd (renewCertificate r (worlds ! k) (pool_before r worlds p k)))) \<and>
   pool_before r worlds p (Suc k) =
     fst (snd (renewCertificate r (worlds ! k) (pool_before r worlds p k)))"
proof (induction worlds arbitrary: p k)
  case Nil
  then show ?case by simp
next
  case (Cons w ws)
  show ?case
  proof (cases k)
    case 0
    then show ?thesis
      by (simp add: renewals_Cons pool_before_0 pool_before_Cons del: renewals.simps(2))
  next
    case (Suc j)
    with Cons.prems have j: "j < length ws" by simp
    from Cons.IH [OF j, of "fst (snd (renewCertificate r w p))"] Suc show ?thesis
      by (simp add: renewals_Cons pool_before_Cons del: renewals.simps(2))
  qed
qed

lemma login_pool_grows:
  "set pool \<subseteq> set (fst (snd (login env authority token csr signer endpoint pool)))"
  by (auto simp: login_def Let_def AddCert_def split: option.splits sum.splits)

lemma login_failure_pool:
  "fst (login env authority token csr signer endpoint pool) = Inl e \<Longrightarrow>
   fst (snd (login env authority token csr signer endpoint pool)) = pool"
  by (auto simp: login_def Let_def split: option.splits sum.splits if_splits)

lemma login_trace:
  "snd (snd (login env authority token csr signer endpoint pool)) =
     (if DialRootCAs env endpoint pool
      then [EvDialRootCAs endpoint pool,
            EvLogin endpoint \<lparr>AuthorityId = authority, Token = token,
              PemCertificateRequest =
                [\<lparr>Type = ''CERTIFICATE REQUEST'', Headers = [], Bytes = csr_Raw csr\<rparr>]\<rparr>]
      else [EvDialRootCAs endpoint pool])"
  by (simp add: login_def Let_def split: option.splits sum.splits)

lemma login_success_pool:
  "fst (login env authority token csr signer endpoint pool) = Inr (c, cfg) \<Longrightarrow>
   \<exists>rt. fst (snd (login env authority token csr signer endpoint pool)) = AddCert rt pool"
  by (auto simp: login_def Let_def split: option.splits sum.splits if_splits)

lemma login_success_dialed:
  "fst (login env authority token csr signer endpoint pool) = Inr x \<Longrightarrow>
   DialRootCAs env endpoint pool"
  by (auto simp: login_def split: if_splits)

lemma login_result_fst:
  "fst (login env authority token csr signer endpoint pool) = Inr (c, cfg) \<Longrightarrow>
   PrivateKey c = signer \<and>
   RootCAs cfg = fst (snd (login env authority token csr signer endpoint pool))"
  using login_result [of env authority token csr signer endpoint pool c cfg]
  by (cases "login env authority token csr signer endpoint pool") auto

lemma sans0: "getAuthority (SANs claims0) = Inr ''11111111-1111-1111-1111-111111111111''"
  unfolding claims0_def by code_simp

lemma root0: "getRootCertificate env_ok ''ca.example:443'' ''30ff'' =
   (Inr \<lparr>Raw = [0x30, 0xff]\<rparr>,
    [EvDialInsecure ''ca.example:443'', EvGetRootCertificate ''ca.example:443'' ''30ff''])"
  by (simp add: env_ok_def env_claims_def env_login_def env0_def getRootCertificate_def
      root_resp0_def hextable_def)

lemma client0: "\<exists>cl. fst (newLinkedCAClient env_ok ''tok'') =
    Inr (cl, [\<lparr>Raw = [0x30, 0xff]\<rparr>, \<lparr>Raw = [0x30, 0x03]\<rparr>])"
  by (simp add: newLinkedCAClient_def sans0 root0 Let_def split_beta)
     (simp add: env_ok_def env_claims_def env_login_def env0_def claims0_def url_Parse0_def
      login_def Let_def login_resp0_def login_intermediates.simps AddCert_def
      getRootCertificate_def root_resp0_def hextable_def sans0 [unfolded claims0_def, simplified])




text \<open>
  C6. When the token does not parse or its claims are refused, when no authority
  identifier is found among the SANs, when the root fetch fails (a fingerprint mismatch
  included) or when the first login fails, \<open>newLinkedCAClient\<close> returns an error and no
  client, and neither the renewer nor the client's channel has been created.
\<close>

theorem newLinkedCAClient_bootstrap_failure:
  assumes fails: "ParseSigned env token = None \<or>
    (\<exists>tok. ParseSigned env token = Some tok \<and>
       (UnsafeClaimsWithoutVerification env tok = None \<or>
        (\<exists>claims. UnsafeClaimsWithoutVerification env tok = Some claims \<and>
           (length (Audience claims) \<noteq> 1 \<or> SHA claims = [] \<or>
            url_Parse env (Audience claims ! 0) = None \<or>
            (\<exists>e. getAuthority (SANs claims) = Inl e) \<or>
            (\<exists>u e. url_Parse env (Audience claims ! 0) = Some u \<and>
               fst (getRootCertificate env (Host u) (SHA claims)) = Inl e) \<or>
            (\<exists>u authority signer csr root e.
               url_Parse env (Audience claims ! 0) = Some u \<and>
               getAuthority (SANs claims) = Inr authority \<and>
               GenerateDefaultSigner env = Some signer \<and>
               CreateCertificateRequest env (Subject claims) (SANs claims) signer = Some csr \<and>
               fst (getRootCertificate env (Host u) (SHA claims)) = Inr root \<and>
               fst (login env authority token csr signer (Host u) (AddCert root [])) = Inl e)))))"
  shows "(\<exists>e. fst (newLinkedCAClient env token) = Inl e) \<and>
         (\<forall>ev \<in> set (snd (newLinkedCAClient env token)). \<not> started ev)"
proof -
  have "\<not> (\<exists>tok claims u authority signer csr root cert cfg.
      ParseSigned env token = Some tok \<and>
      UnsafeClaimsWithoutVerification env tok = Some claims \<and>
      length (Audience claims) = 1 \<and> SHA claims \<noteq> [] \<and>
      url_Parse env (Audience claims ! 0) = Some u \<and>
      getAuthority (SANs claims) = Inr authority \<and>
      GenerateDefaultSigner env = Some signer \<and>
      CreateCertificateRequest env (Subject claims) (SANs claims) signer = Some csr \<and>
      fst (getRootCertificate env (Host u) (SHA claims)) = Inr root \<and>
      fst (login env authority token csr signer (Host u) (AddCert root [])) = Inr (cert, cfg))"
  proof
    assume "\<exists>tok claims u authority signer csr root cert cfg.
      ParseSigned env token = Some tok \<and>
      UnsafeClaimsWithoutVerification env tok = Some claims \<and>
      length (Audience claims) = 1 \<and> SHA claims \<noteq> [] \<and>
      url_Parse env (Audience claims ! 0) = Some u \<and>
      getAuthority (SANs claims) = Inr authority \<and>
      GenerateDefaultSigner env = Some signer \<and>
      CreateCertificateRequest env (Subject claims) (SANs claims) signer = Some csr \<and>
      fst (getRootCertificate env (Host u) (SHA claims)) = Inr root \<and>
      fst (login env authority token csr signer (Host u) (AddCert root [])) = Inr (cert, cfg)"
    then obtain tok claims u authority signer csr root cert cfg where
      "ParseSigned env token = Some tok"
      "UnsafeClaimsWithoutVerification env tok = Some claims"
      "length (Audience claims) = 1" "SHA claims \<noteq> []"
      "url_Parse env (Audience claims ! 0) = Some u"
      "getAuthority (SANs claims) = Inr authority"
      "GenerateDefaultSigner env = Some signer"
      "CreateCertificateRequest env (Subject claims) (SANs claims) signer = Some csr"
      "fst (getRootCertificate env (Host u) (SHA claims)) = Inr root"
      "fst (login env authority token csr signer (Host u) (AddCert root [])) = Inr (cert, cfg)"
      by blast
    with fails show False by auto
  qed
  with newLinkedCAClient_stages [of env token] show ?thesis by blast
qed

theorem newLinkedCAClient_bootstrap_failure_witness:
  "fst (getRootCertificate env_mismatch ''ca.example:443'' ''30fe'') = Inl ErrFingerprintMismatch \<and>
   fst (newLinkedCAClient env_mismatch ''tok'') = Inl ErrFingerprintMismatch \<and>
   filter started (snd (newLinkedCAClient env_mismatch ''tok'')) = []"
proof -
  have tok: "ParseSigned env_mismatch ''tok'' = Some (JSONWebSignature ''tok'')"
    by (simp add: env_mismatch_def env_claims_def env_login_def env0_def)
  have claims: "UnsafeClaimsWithoutVerification env_mismatch (JSONWebSignature ''tok'') =
      Some (claims0\<lparr>SHA := ''30fe''\<rparr>)"
    by (simp add: env_mismatch_def env_claims_def)
  have u: "url_Parse env_mismatch (Audience (claims0\<lparr>SHA := ''30fe''\<rparr>) ! 0) =
      Some \<lparr>Host = ''ca.example:443''\<rparr>"
    by (simp add: env_mismatch_def env_claims_def env_login_def env0_def claims0_def
        url_Parse0_def)
  have root: "fst (getRootCertificate env_mismatch ''ca.example:443'' ''30fe'') =
      Inl ErrFingerprintMismatch"
    by (simp add: env_mismatch_def env_claims_def env_login_def env0_def
        getRootCertificate_def root_resp0_def hextable_def)
  have root': "fst (getRootCertificate env_mismatch (Host \<lparr>Host = ''ca.example:443''\<rparr>)
      (SHA (claims0\<lparr>SHA := ''30fe''\<rparr>))) = Inl ErrFingerprintMismatch"
    using root by simp
  have fails: "ParseSigned env_mismatch ''tok'' = None \<or>
    (\<exists>tok. ParseSigned env_mismatch ''tok'' = Some tok \<and>
       (UnsafeClaimsWithoutVerification env_mismatch tok = None \<or>
        (\<exists>claims. UnsafeClaimsWithoutVerification env_mismatch tok = Some claims \<and>
           (length (Audience claims) \<noteq> 1 \<or> SHA claims = [] \<or>
            url_Parse env_mismatch (Audience claims ! 0) = None \<or>
            (\<exists>e. getAuthority (SANs claims) = Inl e) \<or>
            (\<exists>u e. url_Parse env_mismatch (Audience claims ! 0) = Some u \<and>
               fst (getRootCertificate env_mismatch (Host u) (SHA claims)) = Inl e) \<or>
            (\<exists>u authority signer csr root e.
               url_Parse env_mismatch (Audience claims ! 0) = Some u \<and>
               getAuthority (SANs claims) = Inr authority \<and>
               GenerateDefaultSigner env_mismatch = Some signer \<and>
               CreateCertificateRequest env_mismatch (Subject claims) (SANs claims) signer
                 = Some csr \<and>
               fst (getRootCertificate env_mismatch (Host u) (SHA claims)) = Inr root \<and>
               fst (login env_mismatch authority ''tok'' csr signer (Host u) (AddCert root []))
                 = Inl e)))))"
    using tok claims u root' by blast
  from newLinkedCAClient_bootstrap_failure [OF fails]
  have none: "filter started (snd (newLinkedCAClient env_mismatch ''tok'')) = []"
    by (simp add: filter_empty_conv)
  have s: "getAuthority [''urn:smallstep:authority:11111111-1111-1111-1111-111111111111'']
      = Inr ''11111111-1111-1111-1111-111111111111''"
    by code_simp
  have err: "fst (newLinkedCAClient env_mismatch ''tok'') = Inl ErrFingerprintMismatch"
    by (simp add: newLinkedCAClient_def env_mismatch_def env_claims_def env_login_def env0_def
        claims0_def url_Parse0_def getRootCertificate_def root_resp0_def hextable_def s
        del: getAuthority.simps)
  from root err none show ?thesis by blast
qed

text \<open>
  C8. The first login of a client that was built is \<open>login\<close> on the authority
  identifier taken from the SANs, the token, the generated certificate request and signer,
  the host of the audience and the pool seeded with the root; it sends the login request
  recorded among the events of the construction and leaves the pool \<open>pool1\<close>. For
  every sequence of worlds the renewer makes one attempt per world, and attempt \<open>k\<close> is
  \<open>login\<close> with that same authority identifier, token, certificate request, signer and
  host, on the pool as the first login and the attempts before \<open>k\<close> left it: it dials
  with that pool and, once connected, sends the very request of the first login. A failed
  attempt leaves the pool as it found it; a successful one returns a certificate with the
  same private key and leaves the pool it found with the root of its chain added, so the
  pool only grows.
\<close>

theorem renewal_reuses_login_arguments:
  assumes ok: "fst (newLinkedCAClient env token) = Inr (cl, pool1)"
    and tok: "ParseSigned env token = Some tok"
    and claims: "UnsafeClaimsWithoutVerification env tok = Some claims"
    and u: "url_Parse env (Audience claims ! 0) = Some u"
    and signer: "GenerateDefaultSigner env = Some signer"
    and csr: "CreateCertificateRequest env (Subject claims) (SANs claims) signer = Some csr"
    and root: "fst (getRootCertificate env (Host u) (SHA claims)) = Inr root"
  shows "getAuthority (SANs claims) = Inr (authorityID cl) \<and>
         (\<exists>cfg. fst (login env (authorityID cl) token csr signer (Host u) (AddCert root [])) =
                  Inr (renewer_cert (renewer cl), cfg)) \<and>
         fst (snd (login env (authorityID cl) token csr signer (Host u) (AddCert root []))) = pool1 \<and>
         EvLogin (Host u)
           \<lparr>AuthorityId = authorityID cl, Token = token,
            PemCertificateRequest =
              [\<lparr>Type = ''CERTIFICATE REQUEST'', Headers = [], Bytes = csr_Raw csr\<rparr>]\<rparr>
           \<in> set (snd (newLinkedCAClient env token)) \<and>
         (\<forall>worlds. length (fst (renewals (renewer cl) worlds pool1)) = length worlds \<and>
                   pool_before (renewer cl) worlds pool1 0 = pool1) \<and>
         (\<forall>worlds k. k < length worlds \<longrightarrow>
            fst (renewals (renewer cl) worlds pool1) ! k =
              (fst (login (worlds ! k) (authorityID cl) token csr signer (Host u)
                     (pool_before (renewer cl) worlds pool1 k)),
               snd (snd (login (worlds ! k) (authorityID cl) token csr signer (Host u)
                     (pool_before (renewer cl) worlds pool1 k)))) \<and>
            pool_before (renewer cl) worlds pool1 (Suc k) =
              fst (snd (login (worlds ! k) (authorityID cl) token csr signer (Host u)
                     (pool_before (renewer cl) worlds pool1 k))) \<and>
            snd (fst (renewals (renewer cl) worlds pool1) ! k) =
              (if DialRootCAs (worlds ! k) (Host u) (pool_before (renewer cl) worlds pool1 k)
               then [EvDialRootCAs (Host u) (pool_before (renewer cl) worlds pool1 k),
                     EvLogin (Host u)
                       \<lparr>AuthorityId = authorityID cl, Token = token,
                        PemCertificateRequest =
                          [\<lparr>Type = ''CERTIFICATE REQUEST'', Headers = [],
                            Bytes = csr_Raw csr\<rparr>]\<rparr>]
               else [EvDialRootCAs (Host u) (pool_before (renewer cl) worlds pool1 k)]) \<and>
            set (pool_before (renewer cl) worlds pool1 k) \<subseteq>
              set (pool_before (renewer cl) worlds pool1 (Suc k)) \<and>
            (case fst (fst (renewals (renewer cl) worlds pool1) ! k) of
               Inl e \<Rightarrow>
                 pool_before (renewer cl) worlds pool1 (Suc k) =
                   pool_before (renewer cl) worlds pool1 k
             | Inr (c, cfg) \<Rightarrow>
                 PrivateKey c = signer \<and>
                 RootCAs cfg = pool_before (renewer cl) worlds pool1 (Suc k) \<and>
                 (\<exists>rt. pool_before (renewer cl) worlds pool1 (Suc k) =
                         AddCert rt (pool_before (renewer cl) worlds pool1 k))))"
proof -
  obtain authority where a: "getAuthority (SANs claims) = Inr authority"
    using ok tok claims u
    by (cases "getAuthority (SANs claims)")
       (auto simp: newLinkedCAClient_def split: if_splits)
  obtain evs1 where r: "getRootCertificate env (Host u) (SHA claims) = (Inr root, evs1)"
    using root by (cases "getRootCertificate env (Host u) (SHA claims)") auto
  obtain res pool evs2 where
    l: "login env authority token csr signer (Host u) (AddCert root []) = (res, pool, evs2)"
    by (cases "login env authority token csr signer (Host u) (AddCert root [])")
  from ok tok claims u signer csr a r l obtain cert cfg where
    res: "res = Inr (cert, cfg)"
    by (cases res) (auto simp: newLinkedCAClient_def split: if_splits)
  from ok tok claims u signer csr a r l res have
    cl: "cl = \<lparr>renewer = \<lparr>renewCertificate =
                 (\<lambda>world rootCAs. login world authority token csr signer (Host u) rootCAs),
               renewer_cert = cert\<rparr>, client = Host u, authorityID = authority\<rparr>"
    and p: "pool1 = pool"
    by (auto simp: newLinkedCAClient_def Let_def split: if_splits)
  let ?req = "\<lparr>AuthorityId = authorityID cl, Token = token,
            PemCertificateRequest =
              [\<lparr>Type = ''CERTIFICATE REQUEST'', Headers = [], Bytes = csr_Raw csr\<rparr>]\<rparr>"
  have same: "\<And>world p. renewCertificate (renewer cl) world p =
      login world (authorityID cl) token csr signer (Host u) p"
    by (simp add: cl)
  have c1: "getAuthority (SANs claims) = Inr (authorityID cl)"
    by (simp add: cl a)
  have c2: "\<exists>cfg. fst (login env (authorityID cl) token csr signer (Host u) (AddCert root [])) =
                  Inr (renewer_cert (renewer cl), cfg)"
    by (simp add: cl l res)
  have c3: "fst (snd (login env (authorityID cl) token csr signer (Host u) (AddCert root []))) = pool1"
    by (simp add: cl l p)
  have dialed: "DialRootCAs env (Host u) (AddCert root [])"
    using login_success_dialed [of env authority token csr signer "Host u" "AddCert root []"] l res
    by simp
  have evs2: "evs2 = [EvDialRootCAs (Host u) (AddCert root []), EvLogin (Host u) ?req]"
    using login_trace [of env authority token csr signer "Host u" "AddCert root []"] l dialed
    by (simp add: cl)
  have "\<exists>pre post. snd (newLinkedCAClient env token) = pre @ evs2 @ post"
    using ok tok claims u signer csr a r l res
    by (auto simp: newLinkedCAClient_def Let_def split: if_splits)
  then have c4: "EvLogin (Host u) ?req \<in> set (snd (newLinkedCAClient env token))"
    using evs2 by auto
  have c5: "\<forall>worlds. length (fst (renewals (renewer cl) worlds pool1)) = length worlds \<and>
                   pool_before (renewer cl) worlds pool1 0 = pool1"
    by (simp add: renewals_length pool_before_0)
  have c6: "\<forall>worlds k. k < length worlds \<longrightarrow>
            fst (renewals (renewer cl) worlds pool1) ! k =
              (fst (login (worlds ! k) (authorityID cl) token csr signer (Host u)
                     (pool_before (renewer cl) worlds pool1 k)),
               snd (snd (login (worlds ! k) (authorityID cl) token csr signer (Host u)
                     (pool_before (renewer cl) worlds pool1 k)))) \<and>
            pool_before (renewer cl) worlds pool1 (Suc k) =
              fst (snd (login (worlds ! k) (authorityID cl) token csr signer (Host u)
                     (pool_before (renewer cl) worlds pool1 k))) \<and>
            snd (fst (renewals (renewer cl) worlds pool1) ! k) =
              (if DialRootCAs (worlds ! k) (Host u) (pool_before (renewer cl) worlds pool1 k)
               then [EvDialRootCAs (Host u) (pool_before (renewer cl) worlds pool1 k),
                     EvLogin (Host u) ?req]
               else [EvDialRootCAs (Host u) (pool_before (renewer cl) worlds pool1 k)]) \<and>
            set (pool_before (renewer cl) worlds pool1 k) \<subseteq>
              set (pool_before (renewer cl) worlds pool1 (Suc k)) \<and>
            (case fst (fst (renewals (renewer cl) worlds pool1) ! k) of
               Inl e \<Rightarrow>
                 pool_before (renewer cl) worlds pool1 (Suc k) =
                   pool_before (renewer cl) worlds pool1 k
             | Inr (c, cfg) \<Rightarrow>
                 PrivateKey c = signer \<and>
                 RootCAs cfg = pool_before (renewer cl) worlds pool1 (Suc k) \<and>
                 (\<exists>rt. pool_before (renewer cl) worlds pool1 (Suc k) =
                         AddCert rt (pool_before (renewer cl) worlds pool1 k)))"
  proof (intro allI impI)
    fix worlds :: "env list" and k
    assume k: "k < length worlds"
    let ?p = "pool_before (renewer cl) worlds pool1 k"
    let ?L = "login (worlds ! k) (authorityID cl) token csr signer (Host u) ?p"
    from renewals_nth [OF k, of "renewer cl" pool1]
    have n1: "fst (renewals (renewer cl) worlds pool1) ! k = (fst ?L, snd (snd ?L))"
      and n2: "pool_before (renewer cl) worlds pool1 (Suc k) = fst (snd ?L)"
      by (simp_all add: same)
    have n3: "snd (fst (renewals (renewer cl) worlds pool1) ! k) =
        (if DialRootCAs (worlds ! k) (Host u) ?p
         then [EvDialRootCAs (Host u) ?p, EvLogin (Host u) ?req]
         else [EvDialRootCAs (Host u) ?p])"
      unfolding n1 by (simp only: snd_conv login_trace)
    have n4: "set ?p \<subseteq> set (pool_before (renewer cl) worlds pool1 (Suc k))"
      unfolding n2 by (rule login_pool_grows)
    have n5: "(case fst (fst (renewals (renewer cl) worlds pool1) ! k) of
               Inl e \<Rightarrow> pool_before (renewer cl) worlds pool1 (Suc k) = ?p
             | Inr (c, cfg) \<Rightarrow>
                 PrivateKey c = signer \<and>
                 RootCAs cfg = pool_before (renewer cl) worlds pool1 (Suc k) \<and>
                 (\<exists>rt. pool_before (renewer cl) worlds pool1 (Suc k) = AddCert rt ?p))"
    proof (cases "fst ?L")
      case (Inl e)
      from login_failure_pool [OF this] Inl show ?thesis
        by (simp add: n1 n2)
    next
      case (Inr x)
      obtain c cfg where x: "x = (c, cfg)" by (cases x)
      from Inr x have s: "fst ?L = Inr (c, cfg)" by simp
      from login_result_fst [OF s] login_success_pool [OF s] s show ?thesis
        by (simp add: n1 n2)
    qed
    from n1 n2 n3 n4 n5
    show "fst (renewals (renewer cl) worlds pool1) ! k = (fst ?L, snd (snd ?L)) \<and>
          pool_before (renewer cl) worlds pool1 (Suc k) = fst (snd ?L) \<and>
          snd (fst (renewals (renewer cl) worlds pool1) ! k) =
            (if DialRootCAs (worlds ! k) (Host u) ?p
             then [EvDialRootCAs (Host u) ?p, EvLogin (Host u) ?req]
             else [EvDialRootCAs (Host u) ?p]) \<and>
          set ?p \<subseteq> set (pool_before (renewer cl) worlds pool1 (Suc k)) \<and>
          (case fst (fst (renewals (renewer cl) worlds pool1) ! k) of
               Inl e \<Rightarrow> pool_before (renewer cl) worlds pool1 (Suc k) = ?p
             | Inr (c, cfg) \<Rightarrow>
                 PrivateKey c = signer \<and>
                 RootCAs cfg = pool_before (renewer cl) worlds pool1 (Suc k) \<and>
                 (\<exists>rt. pool_before (renewer cl) worlds pool1 (Suc k) = AddCert rt ?p))"
      by blast
  qed
  from c1 c2 c3 c4 c5 c6 show ?thesis by blast
qed

theorem renewal_reuses_login_arguments_witness:
  "(case fst (newLinkedCAClient env_ok ''tok'') of
      Inl e \<Rightarrow> False
    | Inr (cl, pool1) \<Rightarrow>
        pool1 = [\<lparr>Raw = [0x30, 0xff]\<rparr>, \<lparr>Raw = [0x30, 0x03]\<rparr>] \<and>
        authorityID cl = ''11111111-1111-1111-1111-111111111111'' \<and>
        map snd (fst (renewals (renewer cl)
                        [env_login login_resp_newroot, env_login login_resp_empty] pool1)) =
          [[EvDialRootCAs ''ca.example:443'' [\<lparr>Raw = [0x30, 0xff]\<rparr>, \<lparr>Raw = [0x30, 0x03]\<rparr>],
            EvLogin ''ca.example:443''
              \<lparr>AuthorityId = ''11111111-1111-1111-1111-111111111111'', Token = ''tok'',
               PemCertificateRequest =
                 [\<lparr>Type = ''CERTIFICATE REQUEST'', Headers = [], Bytes = [0x07]\<rparr>]\<rparr>],
           [EvDialRootCAs ''ca.example:443''
              [\<lparr>Raw = [0x30, 0xff]\<rparr>, \<lparr>Raw = [0x30, 0x03]\<rparr>, \<lparr>Raw = [0x30, 0x05]\<rparr>],
            EvLogin ''ca.example:443''
              \<lparr>AuthorityId = ''11111111-1111-1111-1111-111111111111'', Token = ''tok'',
               PemCertificateRequest =
                 [\<lparr>Type = ''CERTIFICATE REQUEST'', Headers = [], Bytes = [0x07]\<rparr>]\<rparr>]] \<and>
        snd (renewals (renewer cl)
               [env_login login_resp_newroot, env_login login_resp_empty] pool1) =
          [\<lparr>Raw = [0x30, 0xff]\<rparr>, \<lparr>Raw = [0x30, 0x03]\<rparr>, \<lparr>Raw = [0x30, 0x05]\<rparr>])"
proof -
  let ?pool1 = "[\<lparr>Raw = [0x30, 0xff]\<rparr>, \<lparr>Raw = [0x30, 0x03 :: byte]\<rparr>]"
  let ?pool2 = "[\<lparr>Raw = [0x30, 0xff]\<rparr>, \<lparr>Raw = [0x30, 0x03]\<rparr>, \<lparr>Raw = [0x30, 0x05 :: byte]\<rparr>]"
  let ?ws = "[env_login login_resp_newroot, env_login login_resp_empty]"
  let ?a = "''11111111-1111-1111-1111-111111111111''"
  let ?req = "\<lparr>AuthorityId = ?a, Token = ''tok'',
      PemCertificateRequest =
        [\<lparr>Type = ''CERTIFICATE REQUEST'', Headers = [], Bytes = [0x07]\<rparr>]\<rparr>"
  from client0 obtain cl where ok: "fst (newLinkedCAClient env_ok ''tok'') = Inr (cl, ?pool1)"
    by blast
  have tok: "ParseSigned env_ok ''tok'' = Some (JSONWebSignature ''tok'')"
    by (simp add: env_ok_def env_claims_def env_login_def env0_def)
  have claims: "UnsafeClaimsWithoutVerification env_ok (JSONWebSignature ''tok'') = Some claims0"
    by (simp add: env_ok_def env_claims_def)
  have u: "url_Parse env_ok (Audience claims0 ! 0) = Some \<lparr>Host = ''ca.example:443''\<rparr>"
    by (simp add: env_ok_def env_claims_def env_login_def env0_def claims0_def url_Parse0_def)
  have signer: "GenerateDefaultSigner env_ok = Some (Key [0x01])"
    by (simp add: env_ok_def env_claims_def env_login_def env0_def)
  have csr: "CreateCertificateRequest env_ok (Subject claims0) (SANs claims0) (Key [0x01]) =
      Some \<lparr>csr_Raw = [0x07]\<rparr>"
    by (simp add: env_ok_def env_claims_def env_login_def env0_def)
  have root: "fst (getRootCertificate env_ok (Host \<lparr>Host = ''ca.example:443''\<rparr>) (SHA claims0)) =
      Inr \<lparr>Raw = [0x30, 0xff]\<rparr>"
    by (simp add: root0 claims0_def)
  note T = renewal_reuses_login_arguments [OF ok tok claims u signer csr root]
  note T1 = T [THEN conjunct1]
  note T5 = T [THEN conjunct2, THEN conjunct2, THEN conjunct2, THEN conjunct2, THEN conjunct1,
      THEN spec, of ?ws]
  note T6 = T [THEN conjunct2, THEN conjunct2, THEN conjunct2, THEN conjunct2, THEN conjunct2,
      THEN spec, THEN spec, THEN mp, of _ ?ws]
  from T1 sans0 have a: "authorityID cl = ?a"
    by simp
  from T5 have len: "length (fst (renewals (renewer cl) ?ws ?pool1)) = 2"
    and p0: "pool_before (renewer cl) ?ws ?pool1 0 = ?pool1"
    by simp_all
  have step: "k < length ?ws \<Longrightarrow>
      pool_before (renewer cl) ?ws ?pool1 (Suc k) =
        fst (snd (login (?ws ! k) (authorityID cl) ''tok'' \<lparr>csr_Raw = [0x07]\<rparr> (Key [0x01])
               ''ca.example:443'' (pool_before (renewer cl) ?ws ?pool1 k))) \<and>
      snd (fst (renewals (renewer cl) ?ws ?pool1) ! k) =
        (if DialRootCAs (?ws ! k) ''ca.example:443'' (pool_before (renewer cl) ?ws ?pool1 k)
         then [EvDialRootCAs ''ca.example:443'' (pool_before (renewer cl) ?ws ?pool1 k),
               EvLogin ''ca.example:443''
                 \<lparr>AuthorityId = authorityID cl, Token = ''tok'',
                  PemCertificateRequest =
                    [\<lparr>Type = ''CERTIFICATE REQUEST'', Headers = [], Bytes = [0x07]\<rparr>]\<rparr>]
         else [EvDialRootCAs ''ca.example:443'' (pool_before (renewer cl) ?ws ?pool1 k)])" for k
  proof -
    assume kk: "k < length ?ws"
    from T6 [of k, OF kk, unfolded URL.select_convs x509_CertificateRequest.select_convs]
    show ?thesis by blast
  qed
  have l1: "fst (snd (login (env_login login_resp_newroot) ?a ''tok'' \<lparr>csr_Raw = [0x07]\<rparr>
        (Key [0x01]) ''ca.example:443'' ?pool1)) = ?pool2"
    by (simp add: login_def Let_def env_login_def env0_def login_resp_newroot_def
        login_intermediates.simps AddCert_def)
  have l2: "fst (snd (login (env_login login_resp_empty) ?a ''tok'' \<lparr>csr_Raw = [0x07]\<rparr>
        (Key [0x01]) ''ca.example:443'' ?pool2)) = ?pool2"
    by (simp add: login_def Let_def env_login_def env0_def login_resp_empty_def login_resp0_def)
  have d: "\<And>p. DialRootCAs (env_login login_resp_newroot) ''ca.example:443'' p"
    "\<And>p. DialRootCAs (env_login login_resp_empty) ''ca.example:443'' p"
    by (simp_all add: env_login_def env0_def)
  from step [of 0] p0 a l1 d have p1: "pool_before (renewer cl) ?ws ?pool1 (Suc 0) = ?pool2"
    and e0: "snd (fst (renewals (renewer cl) ?ws ?pool1) ! 0) =
      [EvDialRootCAs ''ca.example:443'' ?pool1, EvLogin ''ca.example:443'' ?req]"
    by simp_all
  from step [of "Suc 0"] p1 a l2 d have p2: "pool_before (renewer cl) ?ws ?pool1 (Suc (Suc 0)) = ?pool2"
    and e1: "snd (fst (renewals (renewer cl) ?ws ?pool1) ! Suc 0) =
      [EvDialRootCAs ''ca.example:443'' ?pool2, EvLogin ''ca.example:443'' ?req]"
    by simp_all
  from p2 have final: "snd (renewals (renewer cl) ?ws ?pool1) = ?pool2"
    by (simp add: pool_before_def del: renewals.simps)
  from len obtain x y where xy: "fst (renewals (renewer cl) ?ws ?pool1) = [x, y]"
    by (cases "fst (renewals (renewer cl) ?ws ?pool1)"; cases "tl (fst (renewals (renewer cl) ?ws ?pool1))")
       auto
  from xy e0 e1 have evs: "map snd (fst (renewals (renewer cl) ?ws ?pool1)) =
      [[EvDialRootCAs ''ca.example:443'' ?pool1, EvLogin ''ca.example:443'' ?req],
       [EvDialRootCAs ''ca.example:443'' ?pool2, EvLogin ''ca.example:443'' ?req]]"
    by simp
  show ?thesis
    by (simp only: ok sum.case prod.case a evs final)
qed

section \<open>Claims.ToCertificates: errors and the lost durations\<close>

lemma range_durs_Inr: "range_durs nd ks durs = Inr d \<Longrightarrow> d = durs"
  by (induction ks) (auto simp: Let_def split: if_splits)

lemma range_durs_Inl_iff:
  "(\<exists>e. range_durs nd ks durs = Inl e) \<longleftrightarrow>
   (\<exists>k \<in> set ks. nd (durStr (lookup_durs durs k)) = None)"
  by (induction ks) (auto simp: Let_def)

lemma durs_keys: "map fst (durs_of c) =
  [''minTLSDur'', ''maxTLSDur'', ''defaultTLSDur'', ''minSSHUserDur'', ''maxSSHUserDur'',
   ''defaultSSHUserDur'', ''minSSHHostDur'', ''maxSSHHostDur'', ''defaultSSHHostDur'']"
  by (simp add: durs_of_def)

lemma durs_strings:
  "map (\<lambda>k. durStr (lookup_durs (map_of (durs_of c)) k)) (map fst (durs_of c)) = duration_strings c"
  by (simp add: durs_of_def lookup_durs_def duration_strings_def)

lemma durs_dur: "dur (lookup_durs (map_of (durs_of c)) k) = None"
proof (cases "map_of (durs_of c) k")
  case None
  then show ?thesis by (simp add: lookup_durs_def)
next
  case (Some v)
  then have "(k, v) \<in> set (durs_of c)" by (rule map_of_SomeD)
  then have "dur v = None" by (auto simp: durs_of_def)
  with Some show ?thesis by (simp add: lookup_durs_def)
qed

text \<open>
  C9. In whatever order the nine entries are visited, each once, \<open>ToCertificates\<close>
  returns an error exactly when one of the nine duration strings of the claims does not
  parse. When it succeeds, the nine durations of the claims it returns are all nil, whatever
  the strings were, because the parsed values went to the copies; the two flags are those
  of the input.
\<close>

theorem ToCertificates_durations_discarded:
  assumes order: "distinct order" "set order = set (map fst (durs_of c))"
  shows "((\<exists>e. ToCertificates nd order c = Inl e) \<longleftrightarrow>
            (\<exists>s \<in> set (duration_strings c). nd s = None)) \<and>
         (\<forall>pc. ToCertificates nd order c = Inr pc \<longrightarrow>
            MinTLSDur pc = None \<and> MaxTLSDur pc = None \<and> DefaultTLSDur pc = None \<and>
            MinUserSSHDur pc = None \<and> MaxUserSSHDur pc = None \<and> DefaultUserSSHDur pc = None \<and>
            MinHostSSHDur pc = None \<and> MaxHostSSHDur pc = None \<and> DefaultHostSSHDur pc = None \<and>
            p_DisableRenewal pc = Some (DisableRenewal c) \<and>
            EnableSSHCA pc = Some (Enabled (SSH c)))"
proof (rule conjI)
  have keys: "set order = set (map fst (durs_of c))"
    by (rule order(2))
  have "(\<exists>e. ToCertificates nd order c = Inl e) \<longleftrightarrow>
        (\<exists>e. range_durs nd order (map_of (durs_of c)) = Inl e)"
    by (auto simp: ToCertificates_def split: sum.splits)
  also have "\<dots> \<longleftrightarrow> (\<exists>k \<in> set order. nd (durStr (lookup_durs (map_of (durs_of c)) k)) = None)"
    by (rule range_durs_Inl_iff)
  also have "\<dots> \<longleftrightarrow>
      (\<exists>s \<in> set (map (\<lambda>k. durStr (lookup_durs (map_of (durs_of c)) k)) (map fst (durs_of c))).
         nd s = None)"
    unfolding keys by (simp only: set_map bex_simps)
  also have "\<dots> \<longleftrightarrow> (\<exists>s \<in> set (duration_strings c). nd s = None)"
    by (simp only: durs_strings)
  finally show "(\<exists>e. ToCertificates nd order c = Inl e) \<longleftrightarrow>
      (\<exists>s \<in> set (duration_strings c). nd s = None)" .
next
  show "\<forall>pc. ToCertificates nd order c = Inr pc \<longrightarrow>
            MinTLSDur pc = None \<and> MaxTLSDur pc = None \<and> DefaultTLSDur pc = None \<and>
            MinUserSSHDur pc = None \<and> MaxUserSSHDur pc = None \<and> DefaultUserSSHDur pc = None \<and>
            MinHostSSHDur pc = None \<and> MaxHostSSHDur pc = None \<and> DefaultHostSSHDur pc = None \<and>
            p_DisableRenewal pc = Some (DisableRenewal c) \<and>
            EnableSSHCA pc = Some (Enabled (SSH c))"
  proof (rule allI, rule impI)
  fix pc
  assume ok: "ToCertificates nd order c = Inr pc"
  then obtain d where d: "range_durs nd order (map_of (durs_of c)) = Inr d"
    by (auto simp: ToCertificates_def split: sum.splits)
  from range_durs_Inr [OF d] have "d = map_of (durs_of c)" .
  with ok d show "MinTLSDur pc = None \<and> MaxTLSDur pc = None \<and> DefaultTLSDur pc = None \<and>
            MinUserSSHDur pc = None \<and> MaxUserSSHDur pc = None \<and> DefaultUserSSHDur pc = None \<and>
            MinHostSSHDur pc = None \<and> MaxHostSSHDur pc = None \<and> DefaultHostSSHDur pc = None \<and>
            p_DisableRenewal pc = Some (DisableRenewal c) \<and>
            EnableSSHCA pc = Some (Enabled (SSH c))"
    by (auto simp: ToCertificates_def durs_dur)
  qed
qed

theorem ToCertificates_durations_discarded_witness:
  "distinct sample_order \<and>
   set sample_order = set (map fst (durs_of sample_claims)) \<and>
   NewDuration0 ''5m'' = Some (Duration 300000000000) \<and>
   (\<exists>pc. ToCertificates NewDuration0 sample_order sample_claims = Inr pc \<and>
      MinTLSDur pc = None \<and> MaxTLSDur pc = None \<and> DefaultTLSDur pc = None \<and>
      MinUserSSHDur pc = None \<and> MaxUserSSHDur pc = None \<and> DefaultUserSSHDur pc = None \<and>
      MinHostSSHDur pc = None \<and> MaxHostSSHDur pc = None \<and> DefaultHostSSHDur pc = None) \<and>
   (\<exists>e. ToCertificates NewDuration0 sample_order sample_claims_bad = Inl e)"
proof -
  have d: "distinct sample_order"
    by (simp add: sample_order_def)
  have s: "set sample_order = set (map fst (durs_of sample_claims))"
    by (simp add: durs_keys) (auto simp: sample_order_def)
  have s': "set sample_order = set (map fst (durs_of sample_claims_bad))"
    by (simp add: durs_keys) (auto simp: sample_order_def)
  have n: "NewDuration0 ''5m'' = Some (Duration 300000000000)"
    by (simp add: NewDuration0_def)
  note good = ToCertificates_durations_discarded [OF d s, of NewDuration0]
  note bad = ToCertificates_durations_discarded [OF d s', of NewDuration0]
  have "\<not> (\<exists>x \<in> set (duration_strings sample_claims). NewDuration0 x = None)"
    by (simp add: duration_strings_def sample_claims_def NewDuration0_def)
  with good have "\<not> (\<exists>e. ToCertificates NewDuration0 sample_order sample_claims = Inl e)"
    by blast
  then obtain pc where pc: "ToCertificates NewDuration0 sample_order sample_claims = Inr pc"
    by (cases "ToCertificates NewDuration0 sample_order sample_claims") auto
  with good have fields: "MinTLSDur pc = None \<and> MaxTLSDur pc = None \<and> DefaultTLSDur pc = None \<and>
      MinUserSSHDur pc = None \<and> MaxUserSSHDur pc = None \<and> DefaultUserSSHDur pc = None \<and>
      MinHostSSHDur pc = None \<and> MaxHostSSHDur pc = None \<and> DefaultHostSSHDur pc = None"
    by blast
  have "\<exists>x \<in> set (duration_strings sample_claims_bad). NewDuration0 x = None"
    by (simp add: duration_strings_def sample_claims_bad_def sample_claims_def NewDuration0_def)
  with bad have e: "\<exists>e. ToCertificates NewDuration0 sample_order sample_claims_bad = Inl e"
    by blast
  from d s n pc fields e show ?thesis by blast
qed

end
